theory Spec2Isabelle
  imports Complex_Main
begin

section \<open>Numbers and faults\<close>

text \<open>
  The C++ sources compute with \<^verbatim>\<open>double\<close>. The embedding reads every \<^verbatim>\<open>double\<close> as a
  \<^typ>\<open>real\<close> and every operation as the exact one, the constant \<^verbatim>\<open>M_PI\<close> as \<^term>\<open>pi\<close>,
  \<^verbatim>\<open>std::sin\<close> and \<^verbatim>\<open>std::cos\<close> as \<^term>\<open>sin\<close> and \<^term>\<open>cos\<close>. Rounding, infinities and
  NaN are outside the model. A C++ \<^verbatim>\<open>int\<close> is an \<^typ>\<open>int\<close> (the gear numbers never leave
  the range 1..6, so no wrap-around arises).

  Two things a real number cannot show are made explicit as faults: reading a C array
  outside its bounds, and dividing by zero (where the \<^verbatim>\<open>double\<close> would become infinite
  or NaN). A function that may do either returns \<open>fault + real\<close>, with \<open>Inl\<close> the fault.
\<close>

datatype fault = IndexOutOfBounds | DivisionByZero

definition bind_fault :: "fault + 'a \<Rightarrow> ('a \<Rightarrow> fault + 'b) \<Rightarrow> fault + 'b" where
  "bind_fault m f = (case m of Inl e \<Rightarrow> Inl e | Inr v \<Rightarrow> f v)"

definition checked_div :: "real \<Rightarrow> real \<Rightarrow> fault + real" where
  "checked_div a b = (if b = 0 then Inl DivisionByZero else Inr (a / b))"

definition array_at :: "real list \<Rightarrow> int \<Rightarrow> fault + real" where
  "array_at xs i =
     (if 0 \<le> i \<and> i < int (length xs) then Inr (xs ! nat i) else Inl IndexOutOfBounds)"

section \<open>Vehicle dynamics engine (physics_engine.hpp, physics_engine.cpp)\<close>

record VehicleState =
  speed_ms :: real
  acceleration_ms2 :: real
  position_m :: real
  grade_rad :: real
  elevation_m :: real
  engine_rpm :: real
  current_gear :: int
  throttle_percent :: real
  brake_percent :: real

record VehicleParams =
  mass_kg :: real
  frontal_area_m2 :: real
  drag_coefficient :: real
  rolling_resistance :: real
  max_engine_power_kw :: real
  max_torque_nm :: real
  idle_rpm :: real
  max_rpm :: real
  optimal_rpm :: real
  max_brake_force_n :: real
  brake_disc_radius_m :: real
  gravity_ms2 :: real
  air_density :: real
  gear_ratios :: "real list"
  final_drive_ratio :: real
  wheel_radius_m :: real

text \<open>The default member initialisers of \<^verbatim>\<open>struct VehicleParams\<close>.\<close>

definition VehicleParams_default :: VehicleParams where
  "VehicleParams_default =
     \<lparr> mass_kg = 1400, frontal_area_m2 = 2.1, drag_coefficient = 0.28,
       rolling_resistance = 0.012, max_engine_power_kw = 125, max_torque_nm = 220,
       idle_rpm = 800, max_rpm = 6500, optimal_rpm = 4000,
       max_brake_force_n = 9000, brake_disc_radius_m = 0.15,
       gravity_ms2 = 9.81, air_density = 1.225,
       gear_ratios = [3.54, 2.06, 1.36, 1.03, 0.84, 0.70],
       final_drive_ratio = 4.35, wheel_radius_m = 0.32 \<rparr>"

text \<open>
  \<^verbatim>\<open>class PhysicsEngine\<close> has the members \<^verbatim>\<open>params_\<close> and \<^verbatim>\<open>dt_\<close>; a name cannot end
  in an underscore here, so they are \<open>params_pe\<close> and \<open>dt_pe\<close>.
\<close>

record PhysicsEngine =
  params_pe :: VehicleParams
  dt_pe :: real

text \<open>The constructor \<^verbatim>\<open>PhysicsEngine(double dt = 0.1, VehicleParams params = VehicleParams())\<close>.\<close>

definition PhysicsEngine_ctor :: "real \<Rightarrow> VehicleParams \<Rightarrow> PhysicsEngine" where
  "PhysicsEngine_ctor dt params = \<lparr> params_pe = params, dt_pe = dt \<rparr>"

definition calculateDragForce :: "VehicleParams \<Rightarrow> real \<Rightarrow> real" where
  "calculateDragForce p v =
     0.5 * air_density p * drag_coefficient p * frontal_area_m2 p * v * v"

definition calculateRollingResistance :: "VehicleParams \<Rightarrow> real \<Rightarrow> real" where
  "calculateRollingResistance p v =
     rolling_resistance p * mass_kg p * gravity_ms2 p * (1 + v / 100)"

definition calculateGradeResistance :: "VehicleParams \<Rightarrow> real \<Rightarrow> real" where
  "calculateGradeResistance p g = mass_kg p * gravity_ms2 p * sin g"

definition calculateEngineRPM :: "VehicleParams \<Rightarrow> real \<Rightarrow> int \<Rightarrow> fault + real" where
  "calculateEngineRPM p v gear =
     (let gear1 = (if gear < 1 \<or> gear > 6 then 1 else gear) in
      bind_fault (array_at (gear_ratios p) (gear1 - 1)) (\<lambda>gear_ratio.
      bind_fault (checked_div v (wheel_radius_m p)) (\<lambda>q.
      let wheel_speed_rpm = q * 60 / (2 * pi) in
      Inr (wheel_speed_rpm * gear_ratio * final_drive_ratio p))))"

text \<open>
  The loop \<^verbatim>\<open>for (int gear = 1; gear <= 6; gear++)\<close> of \<^verbatim>\<open>selectOptimalGear\<close>, started
  at any gear; it leaves with the first gear that passes both tests, and with 1 when the
  counter passes 6.
\<close>

function selectOptimalGear_loop :: "VehicleParams \<Rightarrow> real \<Rightarrow> real \<Rightarrow> int \<Rightarrow> fault + int" where
  "selectOptimalGear_loop p v target gear =
     (if gear \<le> 6 then
        bind_fault (calculateEngineRPM p v gear) (\<lambda>rpm.
        if rpm \<ge> idle_rpm p \<and> rpm \<le> max_rpm p * 0.85 then
          bind_fault (calculateEngineRPM p target gear) (\<lambda>target_rpm.
          if target_rpm \<le> max_rpm p * 0.9 then Inr gear
          else selectOptimalGear_loop p v target (gear + 1))
        else selectOptimalGear_loop p v target (gear + 1))
      else Inr 1)"
  by pat_completeness auto
termination
  by (relation "measure (\<lambda>(p, v, target, gear). nat (7 - gear))") auto

declare selectOptimalGear_loop.simps [simp del]

definition selectOptimalGear :: "VehicleParams \<Rightarrow> real \<Rightarrow> real \<Rightarrow> fault + int" where
  "selectOptimalGear p v target = selectOptimalGear_loop p v target 1"

definition calculateEngineTorque :: "VehicleParams \<Rightarrow> real \<Rightarrow> real \<Rightarrow> fault + real" where
  "calculateEngineTorque p rpm throttle =
     bind_fault
       (if rpm < idle_rpm p then Inr 0.3
        else if rpm < optimal_rpm p then
          bind_fault (checked_div (rpm - idle_rpm p) (optimal_rpm p - idle_rpm p))
            (\<lambda>q. Inr (0.6 + 0.4 * q))
        else if rpm < max_rpm p * 0.8 then Inr 1
        else
          bind_fault (checked_div (rpm - max_rpm p * 0.8) (max_rpm p * 0.2))
            (\<lambda>q. Inr (1 - 0.3 * q)))
       (\<lambda>torque_ratio0.
          let torque_ratio = max 0.2 (min 1 torque_ratio0) in
          Inr (max_torque_nm p * torque_ratio * (throttle / 100)))"

definition shouldUpshift :: "VehicleParams \<Rightarrow> real \<Rightarrow> real \<Rightarrow> bool" where
  "shouldUpshift p rpm v \<longleftrightarrow> rpm > optimal_rpm p * 1.3 \<and> v > 5"

definition shouldDownshift :: "VehicleParams \<Rightarrow> real \<Rightarrow> real \<Rightarrow> bool" where
  "shouldDownshift p rpm v \<longleftrightarrow> rpm < idle_rpm p * 1.5 \<and> v > 2"

text \<open>
  \<^verbatim>\<open>calculateEngineForce\<close> reads \<^verbatim>\<open>params_.gear_ratios[gear - 1]\<close> with the gear it is
  given, not with the clamped one of \<^verbatim>\<open>calculateEngineRPM\<close>.
\<close>

definition calculateEngineForce :: "VehicleParams \<Rightarrow> real \<Rightarrow> real \<Rightarrow> int \<Rightarrow> fault + real" where
  "calculateEngineForce p v throttle gear =
     bind_fault (calculateEngineRPM p v gear) (\<lambda>rpm.
     bind_fault (calculateEngineTorque p rpm throttle) (\<lambda>torque_nm.
     bind_fault (array_at (gear_ratios p) (gear - 1)) (\<lambda>gear_ratio.
     let total_ratio = gear_ratio * final_drive_ratio p in
     checked_div (torque_nm * total_ratio) (wheel_radius_m p))))"

definition calculateBrakeForce :: "VehicleParams \<Rightarrow> real \<Rightarrow> real" where
  "calculateBrakeForce p brake = max_brake_force_n p * (brake / 100)"

text \<open>
  \<^verbatim>\<open>calculateAcceleration\<close>. The two writes to \<^verbatim>\<open>std::cout\<close> do not touch the result and
  are left out. The parameter \<^verbatim>\<open>distance_to_target_m\<close> is never read.
\<close>

definition calculateAcceleration ::
  "VehicleParams \<Rightarrow> real \<Rightarrow> real \<Rightarrow> real \<Rightarrow> real \<Rightarrow> fault + real" where
  "calculateAcceleration p current_speed target_speed grade distance_to_target =
     (let current = (if current_speed < 0 then 0 else current_speed);
          target = (if target_speed < 0 then 0 else target_speed);
          speed_error = target - current;
          need_accel = (speed_error > 0.1);
          need_brake = (speed_error < - 0.1);
          drag_force = calculateDragForce p current;
          rolling_force = calculateRollingResistance p current;
          grade_force = calculateGradeResistance p grade;
          total_resistance = drag_force + rolling_force + grade_force;
          Kp = 0.25;
          desired_accel = max (- 6) (min 4 (Kp * speed_error))
      in
      bind_fault
        (if need_accel then
           bind_fault (selectOptimalGear p current target) (\<lambda>gear.
           let throttle0 = max 0 (min 100 (desired_accel * 20 + 8));
               throttle = (if current < 3 then min throttle0 35 else throttle0)
           in
           bind_fault (calculateEngineForce p current throttle gear) (\<lambda>engine_force.
           bind_fault (checked_div engine_force (mass_kg p)) (\<lambda>avail.
           let max_available_accel = (if avail > 4 then 4 else avail) in
           Inr (min (engine_force - total_resistance) (mass_kg p * max_available_accel)))))
         else if need_brake then
           (let brake = max 0 (min 100 (- desired_accel * 8));
                brake_force = calculateBrakeForce p brake;
                max_brake_decel = 8
            in Inr (max (- (brake_force + total_resistance)) (- mass_kg p * max_brake_decel)))
         else Inr 0)
        (\<lambda>net_force.
           bind_fault (checked_div net_force (mass_kg p)) (\<lambda>acceleration.
           Inr (max (- 6) (min 4 acceleration)))))"

definition simulateStep ::
  "PhysicsEngine \<Rightarrow> VehicleState \<Rightarrow> real \<Rightarrow> real \<Rightarrow> fault + VehicleState" where
  "simulateStep pe current_state target_speed distance_to_target =
     bind_fault
       (calculateAcceleration (params_pe pe) (speed_ms current_state) target_speed
          (grade_rad current_state) distance_to_target)
       (\<lambda>a.
          let next1 = current_state\<lparr> acceleration_ms2 := a \<rparr>;
              next2 = next1\<lparr> speed_ms := speed_ms current_state + acceleration_ms2 next1 * dt_pe pe \<rparr>;
              next3 = next2\<lparr> speed_ms := max 0 (speed_ms next2) \<rparr>;
              displacement = speed_ms current_state * dt_pe pe
                             + 0.5 * acceleration_ms2 next3 * dt_pe pe * dt_pe pe
          in Inr (next3\<lparr> position_m := position_m current_state + displacement \<rparr>))"

section \<open>Dense vectors and matrices (the part of Eigen that ekf.cpp uses)\<close>

text \<open>
  \<^verbatim>\<open>Eigen::VectorXd\<close> and \<^verbatim>\<open>Eigen::MatrixXd\<close> have sizes fixed at run time only. A vector
  is a list of its coefficients and a matrix the list of its rows. Eigen itself is a
  library outside the repository; its operations are given here by what they compute
  in exact arithmetic.
\<close>

type_synonym vec = "real list"
type_synonym mat = "real list list"

definition mat_of :: "nat \<Rightarrow> nat \<Rightarrow> (nat \<Rightarrow> nat \<Rightarrow> real) \<Rightarrow> mat" where
  "mat_of r c f = map (\<lambda>i. map (\<lambda>j. f i j) [0..<c]) [0..<r]"

definition rows :: "mat \<Rightarrow> nat" where
  "rows M = length M"

definition cols :: "mat \<Rightarrow> nat" where
  "cols M = (case M of [] \<Rightarrow> 0 | r # _ \<Rightarrow> length r)"

definition coeff :: "mat \<Rightarrow> nat \<Rightarrow> nat \<Rightarrow> real" where
  "coeff M i j = M ! i ! j"

definition is_mat :: "nat \<Rightarrow> nat \<Rightarrow> mat \<Rightarrow> bool" where
  "is_mat r c M \<longleftrightarrow> length M = r \<and> list_all (\<lambda>row. length row = c) M"

definition Identity :: "nat \<Rightarrow> nat \<Rightarrow> mat" where
  "Identity r c = mat_of r c (\<lambda>i j. if i = j then 1 else 0)"

definition Zero :: "nat \<Rightarrow> nat \<Rightarrow> mat" where
  "Zero r c = mat_of r c (\<lambda>i j. 0)"

definition Zero_vec :: "nat \<Rightarrow> vec" where
  "Zero_vec n = replicate n 0"

text \<open>The assignment \<^verbatim>\<open>M(i, j) = v\<close>.\<close>

definition set_coeff :: "mat \<Rightarrow> nat \<Rightarrow> nat \<Rightarrow> real \<Rightarrow> mat" where
  "set_coeff M i j v = M[i := (M ! i)[j := v]]"

text \<open>\<^verbatim>\<open>M.setIdentity()\<close> keeps the size of \<open>M\<close>.\<close>

definition setIdentity :: "mat \<Rightarrow> mat" where
  "setIdentity M = Identity (rows M) (cols M)"

definition mat_scale :: "mat \<Rightarrow> real \<Rightarrow> mat" where
  "mat_scale M c = mat_of (rows M) (cols M) (\<lambda>i j. coeff M i j * c)"

definition mat_add :: "mat \<Rightarrow> mat \<Rightarrow> mat" where
  "mat_add A B = mat_of (rows A) (cols A) (\<lambda>i j. coeff A i j + coeff B i j)"

definition mat_sub :: "mat \<Rightarrow> mat \<Rightarrow> mat" where
  "mat_sub A B = mat_of (rows A) (cols A) (\<lambda>i j. coeff A i j - coeff B i j)"

definition mat_mul :: "mat \<Rightarrow> mat \<Rightarrow> mat" where
  "mat_mul A B = mat_of (rows A) (cols B) (\<lambda>i j. \<Sum>k<cols A. coeff A i k * coeff B k j)"

definition mat_transpose :: "mat \<Rightarrow> mat" where
  "mat_transpose A = mat_of (cols A) (rows A) (\<lambda>i j. coeff A j i)"

definition mat_vec :: "mat \<Rightarrow> vec \<Rightarrow> vec" where
  "mat_vec A v = map (\<lambda>i. \<Sum>k<cols A. coeff A i k * v ! k) [0..<rows A]"

definition vec_add :: "vec \<Rightarrow> vec \<Rightarrow> vec" where
  "vec_add u v = map (\<lambda>i. u ! i + v ! i) [0..<length u]"

definition vec_sub :: "vec \<Rightarrow> vec \<Rightarrow> vec" where
  "vec_sub u v = map (\<lambda>i. u ! i - v ! i) [0..<length u]"

text \<open>
  \<^verbatim>\<open>S.inverse()\<close> is only ever applied to the 2 by 2 innovation covariance. In exact
  arithmetic the inverse of an invertible 2 by 2 matrix is its adjugate divided by its
  determinant. For a singular matrix the \<^verbatim>\<open>double\<close> computation gives no finite result;
  the statements below about \<^verbatim>\<open>update\<close> therefore assume a non-zero determinant.
\<close>

definition determinant2 :: "mat \<Rightarrow> real" where
  "determinant2 S = coeff S 0 0 * coeff S 1 1 - coeff S 0 1 * coeff S 1 0"

definition inverse2 :: "mat \<Rightarrow> mat" where
  "inverse2 S =
     (let d = determinant2 S in
      [[coeff S 1 1 / d, - coeff S 0 1 / d],
       [- coeff S 1 0 / d, coeff S 0 0 / d]])"

section \<open>Motion estimator (ekf.hpp, ekf.cpp)\<close>

text \<open>
  The members of \<^verbatim>\<open>class EKF\<close>; \<^verbatim>\<open>dt_\<close> is \<open>dt_e\<close> and so on, since a name cannot end in an
  underscore here.
\<close>

record EKF =
  dt_e :: real
  state_dim_e :: nat
  meas_dim_e :: nat
  F_e :: mat
  H_e :: mat
  Q_e :: mat
  R_e :: mat
  P_e :: mat
  x_e :: vec

datatype ekf_error = RuntimeError string

text \<open>The constructor \<^verbatim>\<open>EKF::EKF(double dt)\<close>.\<close>

definition EKF_ctor :: "real \<Rightarrow> EKF" where
  "EKF_ctor dt =
     (let state_dim = 5; meas_dim = 2;
          F0 = set_coeff (set_coeff (Identity state_dim state_dim) 0 2 dt) 1 3 dt;
          H0 = set_coeff (set_coeff (Zero meas_dim state_dim) 0 0 1) 1 1 1;
          Q0 = set_coeff (set_coeff (set_coeff (set_coeff (set_coeff
                 (Zero state_dim state_dim) 0 0 0.001) 1 1 0.001) 2 2 0.05) 3 3 0.05) 4 4 0.01;
          R0 = set_coeff (set_coeff (Zero meas_dim meas_dim) 0 0 3) 1 1 3
      in \<lparr> dt_e = dt, state_dim_e = state_dim, meas_dim_e = meas_dim,
           F_e = F0, H_e = H0, Q_e = Q0, R_e = R0,
           P_e = mat_scale (Identity state_dim state_dim) 10,
           x_e = Zero_vec state_dim \<rparr>)"

text \<open>
  A method that can throw returns the exception, if any, together with the object as the
  call leaves it.
\<close>

definition EKF_init :: "EKF \<Rightarrow> vec \<Rightarrow> ekf_error option \<times> EKF" where
  "EKF_init e x0 =
     (if length x0 \<noteq> state_dim_e e then
        (Some (RuntimeError ''EKF::init: wrong state size''), e)
      else (None, e\<lparr> x_e := x0, P_e := mat_scale (setIdentity (P_e e)) 10 \<rparr>))"

definition EKF_setDeltaT :: "EKF \<Rightarrow> real \<Rightarrow> EKF" where
  "EKF_setDeltaT e dt =
     (let e1 = e\<lparr> dt_e := dt \<rparr> in
      e1\<lparr> F_e := set_coeff (set_coeff (setIdentity (F_e e1)) 0 2 (dt_e e1)) 1 3 (dt_e e1) \<rparr>)"

text \<open>
  The two loops of \<^verbatim>\<open>predict\<close>,
  \<^verbatim>\<open>while (yaw_new > M_PI) yaw_new -= 2.0 * M_PI;\<close> and
  \<^verbatim>\<open>while (yaw_new < -M_PI) yaw_new += 2.0 * M_PI;\<close>.
\<close>

function predict_loop1 :: "real \<Rightarrow> real" where
  "predict_loop1 yaw_new = (if yaw_new > pi then predict_loop1 (yaw_new - 2 * pi) else yaw_new)"
  by pat_completeness auto
termination
proof (relation "measure (\<lambda>y. nat \<lceil>(y - pi) / (2 * pi)\<rceil>)")
  show "wf (measure (\<lambda>y. nat \<lceil>(y - pi) / (2 * pi)\<rceil>))" by simp
next
  fix yaw_new :: real
  assume gt: "pi < yaw_new"
  have eq: "(yaw_new - 2 * pi - pi) / (2 * pi) = (yaw_new - pi) / (2 * pi) - 1"
    by (simp add: field_simps)
  have pos: "0 < (yaw_new - pi) / (2 * pi)"
    using gt by simp
  then have "0 < \<lceil>(yaw_new - pi) / (2 * pi)\<rceil>"
    by (simp add: ceiling_less_iff)
  then have "nat \<lceil>(yaw_new - 2 * pi - pi) / (2 * pi)\<rceil> < nat \<lceil>(yaw_new - pi) / (2 * pi)\<rceil>"
    by (simp only: eq ceiling_diff_one)
  then show "(yaw_new - 2 * pi, yaw_new) \<in> measure (\<lambda>y. nat \<lceil>(y - pi) / (2 * pi)\<rceil>)"
    by (simp only: in_measure)
qed

function predict_loop2 :: "real \<Rightarrow> real" where
  "predict_loop2 yaw_new = (if yaw_new < - pi then predict_loop2 (yaw_new + 2 * pi) else yaw_new)"
  by pat_completeness auto
termination
proof (relation "measure (\<lambda>y. nat \<lceil>(- pi - y) / (2 * pi)\<rceil>)")
  show "wf (measure (\<lambda>y. nat \<lceil>(- pi - y) / (2 * pi)\<rceil>))" by simp
next
  fix yaw_new :: real
  assume lt: "yaw_new < - pi"
  have eq: "(- pi - (yaw_new + 2 * pi)) / (2 * pi) = (- pi - yaw_new) / (2 * pi) - 1"
    by (simp add: field_simps)
  have pos: "0 < (- pi - yaw_new) / (2 * pi)"
    using lt by simp
  then have "0 < \<lceil>(- pi - yaw_new) / (2 * pi)\<rceil>"
    by (simp add: ceiling_less_iff)
  then have "nat \<lceil>(- pi - (yaw_new + 2 * pi)) / (2 * pi)\<rceil> < nat \<lceil>(- pi - yaw_new) / (2 * pi)\<rceil>"
    by (simp only: eq ceiling_diff_one)
  then show "(yaw_new + 2 * pi, yaw_new) \<in> measure (\<lambda>y. nat \<lceil>(- pi - y) / (2 * pi)\<rceil>)"
    by (simp only: in_measure)
qed

declare predict_loop1.simps [simp del] predict_loop2.simps [simp del]

definition EKF_predict :: "EKF \<Rightarrow> real \<Rightarrow> real \<Rightarrow> EKF" where
  "EKF_predict e ax_body yaw_rate =
     (let x = x_e e ! 0; y = x_e e ! 1; vx = x_e e ! 2; vy = x_e e ! 3; yaw = x_e e ! 4;
          yaw_new = predict_loop2 (predict_loop1 (yaw + yaw_rate * dt_e e));
          ax_w = ax_body * cos yaw;
          ay_w = ax_body * sin yaw;
          vx_new = vx + ax_w * dt_e e;
          vy_new = vy + ay_w * dt_e e;
          x_new = x + vx * dt_e e + 0.5 * ax_w * dt_e e * dt_e e;
          y_new = y + vy * dt_e e + 0.5 * ay_w * dt_e e * dt_e e;
          x1 = (x_e e)[0 := x_new, 1 := y_new, 2 := vx_new, 3 := vy_new, 4 := yaw_new];
          F1 = set_coeff (set_coeff (setIdentity (F_e e)) 0 2 (dt_e e)) 1 3 (dt_e e)
      in e\<lparr> x_e := x1, F_e := F1,
            P_e := mat_add (mat_mul (mat_mul F1 (P_e e)) (mat_transpose F1)) (Q_e e) \<rparr>)"

definition EKF_update :: "EKF \<Rightarrow> vec \<Rightarrow> ekf_error option \<times> EKF" where
  "EKF_update e z =
     (if length z \<noteq> meas_dim_e e then
        (Some (RuntimeError ''EKF::update: wrong measurement size''), e)
      else
        (let y = vec_sub z (mat_vec (H_e e) (x_e e));
             S = mat_add (mat_mul (mat_mul (H_e e) (P_e e)) (mat_transpose (H_e e))) (R_e e);
             K = mat_mul (mat_mul (P_e e) (mat_transpose (H_e e))) (inverse2 S);
             x1 = vec_add (x_e e) (mat_vec K y);
             I = Identity (state_dim_e e) (state_dim_e e)
         in (None, e\<lparr> x_e := x1, P_e := mat_mul (mat_sub I (mat_mul K (H_e e))) (P_e e) \<rparr>)))"

definition EKF_state :: "EKF \<Rightarrow> vec" where
  "EKF_state e = x_e e"

subsection \<open>Auxiliary notions for the statements about the engine\<close>

text \<open>
  The parameter records on which no division of the engine has a zero divisor and
  \<^verbatim>\<open>gear_ratios\<close> has the six entries of its C type \<^verbatim>\<open>double[6]\<close>. The divisor
  \<^verbatim>\<open>optimal_rpm - idle_rpm\<close> needs no condition: it is only used on a branch where
  \<^verbatim>\<open>idle_rpm <= rpm < optimal_rpm\<close>.
\<close>

definition params_ok :: "VehicleParams \<Rightarrow> bool" where
  "params_ok p \<longleftrightarrow>
     mass_kg p \<noteq> 0 \<and> wheel_radius_m p \<noteq> 0 \<and> max_rpm p \<noteq> 0 \<and> length (gear_ratios p) = 6"

definition returns :: "fault + 'a \<Rightarrow> bool" where
  "returns m \<longleftrightarrow> (\<exists>v. m = Inr v)"

text \<open>The wheel speed in revolutions per minute under the default wheel radius.\<close>

definition wheel_rpm :: "real \<Rightarrow> real" where
  "wheel_rpm v = v / 0.32 * 60 / (2 * pi)"

subsection \<open>Auxiliary notions for the statements about the estimator\<close>

text \<open>
  The matrices that the constructor stores in \<^verbatim>\<open>H_\<close>, \<^verbatim>\<open>Q_\<close> and \<^verbatim>\<open>R_\<close>, written out, and
  the transition matrix that \<^verbatim>\<open>predict\<close> and \<^verbatim>\<open>setDeltaT\<close> build from a time delta.
\<close>

definition H_fixed :: mat where
  "H_fixed = [[1, 0, 0, 0, 0], [0, 1, 0, 0, 0]]"

definition Q_fixed :: mat where
  "Q_fixed = [[0.001, 0, 0, 0, 0], [0, 0.001, 0, 0, 0], [0, 0, 0.05, 0, 0],
              [0, 0, 0, 0.05, 0], [0, 0, 0, 0, 0.01]]"

definition R_fixed :: mat where
  "R_fixed = [[3, 0], [0, 3]]"

text \<open>
  The class invariant. The members are private: the constructor sets them and the methods
  change \<^verbatim>\<open>dt_\<close>, \<^verbatim>\<open>F_\<close>, \<^verbatim>\<open>P_\<close> and \<^verbatim>\<open>x_\<close> only. Under the invariant every coefficient read
  and every product in the methods has matching sizes (Eigen would assert otherwise).
  It is shown below that the constructor establishes it and that each method keeps it.
\<close>

definition EKF_inv :: "EKF \<Rightarrow> bool" where
  "EKF_inv e \<longleftrightarrow>
     state_dim_e e = 5 \<and> meas_dim_e e = 2 \<and>
     H_e e = H_fixed \<and> Q_e e = Q_fixed \<and> R_e e = R_fixed \<and>
     is_mat 5 5 (F_e e) \<and> is_mat 5 5 (P_e e) \<and> length (x_e e) = 5"

definition F_of :: "real \<Rightarrow> mat" where
  "F_of dt = [[1, 0, dt, 0, 0], [0, 1, 0, dt, 0], [0, 0, 1, 0, 0], [0, 0, 0, 1, 0], [0, 0, 0, 0, 1]]"

text \<open>Symmetry and positive semi-definiteness of a square matrix.\<close>

definition symmetric :: "mat \<Rightarrow> bool" where
  "symmetric M \<longleftrightarrow> (\<forall>i<rows M. \<forall>j<rows M. coeff M i j = coeff M j i)"

definition quad_form :: "mat \<Rightarrow> vec \<Rightarrow> real" where
  "quad_form M v = (\<Sum>i<length v. \<Sum>j<length v. v ! i * coeff M i j * v ! j)"

definition psd :: "mat \<Rightarrow> bool" where
  "psd M \<longleftrightarrow> (\<forall>v. length v = rows M \<longrightarrow> 0 \<le> quad_form M v)"

text \<open>
  The innovation covariance \<^verbatim>\<open>S\<close> that \<^verbatim>\<open>update\<close> computes from the stored members, and
  the covariance that \<^verbatim>\<open>update\<close> assigns to \<^verbatim>\<open>P_\<close>, as a function of the old covariance,
  with \<^verbatim>\<open>H_\<close> and \<^verbatim>\<open>R_\<close> as the constructor left them.
\<close>

definition innovation_cov :: "EKF \<Rightarrow> mat" where
  "innovation_cov e =
     mat_add (mat_mul (mat_mul (H_e e) (P_e e)) (mat_transpose (H_e e))) (R_e e)"

definition update_cov :: "mat \<Rightarrow> mat" where
  "update_cov P =
     mat_mul (mat_sub (Identity 5 5)
       (mat_mul (mat_mul (mat_mul P (mat_transpose H_fixed))
          (inverse2 (mat_add (mat_mul (mat_mul H_fixed P) (mat_transpose H_fixed)) R_fixed)))
        H_fixed)) P"

section \<open>Properties of the vehicle dynamics engine\<close>

lemma bind_fault_Inr [simp]: "bind_fault (Inr v) f = f v"
  by (simp add: bind_fault_def)

lemma bind_fault_Inl [simp]: "bind_fault (Inl e) f = Inl e"
  by (simp add: bind_fault_def)

lemma calculateEngineRPM_value:
  assumes "wheel_radius_m p \<noteq> 0" and "length (gear_ratios p) = 6"
  shows "calculateEngineRPM p v gear =
           Inr (v / wheel_radius_m p * 60 / (2 * pi)
                * gear_ratios p ! nat ((if gear < 1 \<or> gear > 6 then 1 else gear) - 1)
                * final_drive_ratio p)"
  using assms by (simp add: calculateEngineRPM_def array_at_def checked_div_def Let_def)

lemma selectOptimalGear_loop_range:
  "wheel_radius_m p \<noteq> 0 \<Longrightarrow> length (gear_ratios p) = 6 \<Longrightarrow> 1 \<le> gear \<Longrightarrow>
     \<exists>k. selectOptimalGear_loop p v target gear = Inr k \<and> 1 \<le> k \<and> k \<le> 6"
proof (induction p v target gear rule: selectOptimalGear_loop.induct)
  case (1 p v target gear)
  note ok = \<open>wheel_radius_m p \<noteq> 0\<close> \<open>length (gear_ratios p) = 6\<close>
  show ?case
  proof (cases "gear \<le> 6")
    case False
    then show ?thesis by (subst selectOptimalGear_loop.simps) simp
  next
    case le: True
    obtain rpm where rpm: "calculateEngineRPM p v gear = Inr rpm"
      using calculateEngineRPM_value [OF ok] by blast
    obtain trpm where trpm: "calculateEngineRPM p target gear = Inr trpm"
      using calculateEngineRPM_value [OF ok] by blast
    have next_ok: "\<exists>k. selectOptimalGear_loop p v target (gear + 1) = Inr k \<and> 1 \<le> k \<and> k \<le> 6"
      if "\<not> (idle_rpm p \<le> rpm \<and> rpm \<le> max_rpm p * 0.85) \<or> \<not> trpm \<le> max_rpm p * 0.9"
    proof (cases "idle_rpm p \<le> rpm \<and> rpm \<le> max_rpm p * 0.85")
      case True
      with that have "\<not> trpm \<le> max_rpm p * 0.9" by blast
      with "1.IH"(1) le True ok "1.prems"(3) show ?thesis by simp
    next
      case False
      with "1.IH"(2) le ok "1.prems"(3) show ?thesis by simp
    qed
    show ?thesis
    proof (cases "idle_rpm p \<le> rpm \<and> rpm \<le> max_rpm p * 0.85 \<and> trpm \<le> max_rpm p * 0.9")
      case True
      then have "selectOptimalGear_loop p v target gear = Inr gear"
        using le rpm trpm by (subst selectOptimalGear_loop.simps) simp
      with le "1.prems"(3) show ?thesis by simp
    next
      case False
      then have "selectOptimalGear_loop p v target gear = selectOptimalGear_loop p v target (gear + 1)"
        using le rpm trpm by (subst selectOptimalGear_loop.simps) auto
      with next_ok False show ?thesis by auto
    qed
  qed
qed

lemma selectOptimalGear_range:
  "wheel_radius_m p \<noteq> 0 \<Longrightarrow> length (gear_ratios p) = 6 \<Longrightarrow>
     \<exists>k. selectOptimalGear p v target = Inr k \<and> 1 \<le> k \<and> k \<le> 6"
  unfolding selectOptimalGear_def by (rule selectOptimalGear_loop_range) simp_all

lemma returns_Inr [simp]: "returns (Inr v)"
  by (simp add: returns_def)

lemma returns_checked_div [simp]: "returns (checked_div a b) \<longleftrightarrow> b \<noteq> 0"
  by (simp add: returns_def checked_div_def)

lemma returns_bind_checked_div [simp]:
  "returns (bind_fault (checked_div a b) (\<lambda>q. Inr (f q))) \<longleftrightarrow> b \<noteq> 0"
  by (simp add: returns_def checked_div_def)

lemma calculateEngineTorque_total:
  assumes "max_rpm p \<noteq> 0"
  shows "\<exists>t. calculateEngineTorque p rpm throttle = Inr t"
proof -
  have "returns (if rpm < idle_rpm p then Inr 0.3
        else if rpm < optimal_rpm p then
          bind_fault (checked_div (rpm - idle_rpm p) (optimal_rpm p - idle_rpm p))
            (\<lambda>q. Inr (0.6 + 0.4 * q))
        else if rpm < max_rpm p * 0.8 then Inr 1
        else
          bind_fault (checked_div (rpm - max_rpm p * 0.8) (max_rpm p * 0.2))
            (\<lambda>q. Inr (1 - 0.3 * q)))"
    using assms by simp
  then obtain r0 where "(if rpm < idle_rpm p then Inr 0.3
        else if rpm < optimal_rpm p then
          bind_fault (checked_div (rpm - idle_rpm p) (optimal_rpm p - idle_rpm p))
            (\<lambda>q. Inr (0.6 + 0.4 * q))
        else if rpm < max_rpm p * 0.8 then Inr 1
        else
          bind_fault (checked_div (rpm - max_rpm p * 0.8) (max_rpm p * 0.2))
            (\<lambda>q. Inr (1 - 0.3 * q))) = (Inr r0 :: fault + real)"
    unfolding returns_def ..
  then have "calculateEngineTorque p rpm throttle
      = Inr (max_torque_nm p * max 0.2 (min 1 r0) * (throttle / 100))"
    unfolding calculateEngineTorque_def Let_def by (simp only: bind_fault_Inr)
  then show ?thesis ..
qed

lemma calculateEngineForce_total:
  assumes "params_ok p" and "1 \<le> gear" and "gear \<le> 6"
  shows "\<exists>f. calculateEngineForce p v throttle gear = Inr f"
proof -
  from assms have ok: "wheel_radius_m p \<noteq> 0" "length (gear_ratios p) = 6" "max_rpm p \<noteq> 0"
    by (simp_all add: params_ok_def)
  obtain rpm where rpm: "calculateEngineRPM p v gear = Inr rpm"
    using calculateEngineRPM_value [OF ok(1,2)] by blast
  obtain t where t: "calculateEngineTorque p rpm throttle = Inr t"
    using calculateEngineTorque_total [OF ok(3)] by blast
  have "array_at (gear_ratios p) (gear - 1) = Inr (gear_ratios p ! nat (gear - 1))"
    using assms(2,3) ok(2) by (simp add: array_at_def)
  then show ?thesis
    using rpm t ok(1) by (simp add: calculateEngineForce_def checked_div_def Let_def)
qed

lemma calculateAcceleration_returns:
  assumes "params_ok p"
  shows "\<exists>a. calculateAcceleration p cs ts g d = Inr a \<and> - 6 \<le> a \<and> a \<le> 4"
proof -
  from assms have ok: "wheel_radius_m p \<noteq> 0" "length (gear_ratios p) = 6" "mass_kg p \<noteq> 0"
    by (simp_all add: params_ok_def)
  define current where "current = (if cs < 0 then 0 else cs)"
  define target where "target = (if ts < 0 then 0 else ts)"
  obtain k where k: "selectOptimalGear p current target = Inr k" "1 \<le> k" "k \<le> 6"
    using selectOptimalGear_range [OF ok(1,2)] by blast
  have ef: "\<exists>f. calculateEngineForce p current th k = Inr f" for th
    using calculateEngineForce_total [OF assms k(2,3)] .
  show ?thesis
  proof (cases "target - current > 0.1")
    case True
    obtain f where f: "calculateEngineForce p current
        (if current < 3 then min (max 0 (min 100 (max (- 6) (min 4 (0.25 * (target - current))) * 20 + 8))) 35
         else max 0 (min 100 (max (- 6) (min 4 (0.25 * (target - current))) * 20 + 8))) k = Inr f"
      using ef by blast
    show ?thesis
      unfolding calculateAcceleration_def Let_def current_def [symmetric] target_def [symmetric]
      using True k(1) f ok(3) by (simp add: checked_div_def)
  next
    case False
    show ?thesis
      unfolding calculateAcceleration_def Let_def current_def [symmetric] target_def [symmetric]
      using False ok(3) by (simp add: checked_div_def)
  qed
qed

lemma params_ok_default: "params_ok VehicleParams_default"
  by (simp add: params_ok_def VehicleParams_default_def)

text \<open>
  Claim C3. For every input (current speed, target speed, grade, distance to target),
  \<^verbatim>\<open>calculateAcceleration\<close> returns: no array is read out of bounds and no divisor is
  zero; and the value returned lies in the closed interval from -6 to 4. This holds for
  every parameter record with non-zero mass, wheel radius and maximal RPM, so for the
  default one.
\<close>

theorem calculateAcceleration_total_bounded:
  "params_ok p \<Longrightarrow>
     \<exists>a. calculateAcceleration p currentSpeed targetSpeed grade distanceToTarget = Inr a
         \<and> - 6 \<le> a \<and> a \<le> 4"
  by (rule calculateAcceleration_returns)

theorem calculateAcceleration_total_bounded_witness:
  "params_ok VehicleParams_default
   \<and> (\<exists>a. calculateAcceleration VehicleParams_default 0 10 0 100 = Inr a \<and> - 6 \<le> a \<and> a \<le> 4)"
  using calculateAcceleration_total_bounded [of VehicleParams_default 0 10 0 100]
  by (simp add: params_ok_def VehicleParams_default_def)

text \<open>
  Claim C8. Whenever the target and the current speed, each with a negative value
  replaced by zero, differ by at most 0.1, \<^verbatim>\<open>calculateAcceleration\<close> returns exactly 0,
  whatever the grade and the resistances are; in particular at (20, 20, 0, 100).
\<close>

theorem calculateAcceleration_cruise_zero:
  assumes "mass_kg p \<noteq> 0"
    and "\<bar>(if targetSpeed < 0 then 0 else targetSpeed) - (if currentSpeed < 0 then 0 else currentSpeed)\<bar> \<le> 0.1"
  shows "calculateAcceleration p currentSpeed targetSpeed grade distance = Inr 0"
proof -
  define current where "current = (if currentSpeed < 0 then 0 else currentSpeed)"
  define target where "target = (if targetSpeed < 0 then 0 else targetSpeed)"
  from assms(2) have "\<not> target - current > 0.1" and "\<not> target - current < - 0.1"
    unfolding current_def target_def by linarith+
  then show ?thesis
    unfolding calculateAcceleration_def Let_def current_def [symmetric] target_def [symmetric]
    using assms(1) by (simp add: checked_div_def)
qed

theorem calculateAcceleration_cruise_zero_witness:
  "mass_kg VehicleParams_default \<noteq> 0
   \<and> \<bar>(if (20::real) < 0 then 0 else 20) - (if (20::real) < 0 then 0 else 20)\<bar> \<le> (0.1::real)
   \<and> calculateAcceleration VehicleParams_default 20 20 0 100 = Inr 0"
  using calculateAcceleration_cruise_zero [where p = VehicleParams_default and targetSpeed = 20 and currentSpeed = 20
      and grade = 0 and distance = 100]
  by (simp add: VehicleParams_default_def)

text \<open>
  Claim C7. For every input state (of any speed, negative ones too), target speed,
  distance and step size, \<^verbatim>\<open>simulateStep\<close> returns a state whose speed is not negative.
\<close>

theorem simulateStep_speed_nonneg:
  assumes "params_ok (params_pe pe)"
  shows "\<exists>s'. simulateStep pe s targetSpeed distance = Inr s' \<and> 0 \<le> speed_ms s'"
proof -
  obtain a where "calculateAcceleration (params_pe pe) (speed_ms s) targetSpeed (grade_rad s) distance = Inr a"
    using calculateAcceleration_returns [OF assms] by blast
  then show ?thesis
    by (simp add: simulateStep_def Let_def)
qed

theorem simulateStep_speed_nonneg_witness:
  "params_ok (params_pe (PhysicsEngine_ctor 0.1 VehicleParams_default))
   \<and> (\<exists>s'. simulateStep (PhysicsEngine_ctor 0.1 VehicleParams_default)
          \<lparr> speed_ms = - 5, acceleration_ms2 = 0, position_m = 0, grade_rad = 0,
            elevation_m = 0, engine_rpm = 0, current_gear = 1, throttle_percent = 0,
            brake_percent = 0 \<rparr> 0 100 = Inr s' \<and> 0 \<le> speed_ms s')"
  using simulateStep_speed_nonneg [of "PhysicsEngine_ctor 0.1 VehicleParams_default"
      "\<lparr> speed_ms = - 5, acceleration_ms2 = 0, position_m = 0, grade_rad = 0,
         elevation_m = 0, engine_rpm = 0, current_gear = 1, throttle_percent = 0,
         brake_percent = 0 \<rparr>" 0 100]
  by (simp add: params_ok_def VehicleParams_default_def PhysicsEngine_ctor_def)

text \<open>
  Claim C10. The state returned by \<^verbatim>\<open>simulateStep\<close> has the grade, elevation, engine
  RPM, gear, throttle percentage and brake percentage of the input state: the step
  recomputes the speed, the acceleration and the position only.
\<close>

theorem simulateStep_frame:
  assumes "params_ok (params_pe pe)"
  shows "\<exists>s'. simulateStep pe s targetSpeed distance = Inr s'
           \<and> grade_rad s' = grade_rad s \<and> elevation_m s' = elevation_m s
           \<and> engine_rpm s' = engine_rpm s \<and> current_gear s' = current_gear s
           \<and> throttle_percent s' = throttle_percent s \<and> brake_percent s' = brake_percent s"
proof -
  obtain a where "calculateAcceleration (params_pe pe) (speed_ms s) targetSpeed (grade_rad s) distance = Inr a"
    using calculateAcceleration_returns [OF assms] by blast
  then show ?thesis
    by (simp add: simulateStep_def Let_def)
qed

theorem simulateStep_frame_witness:
  "params_ok (params_pe (PhysicsEngine_ctor 0.1 VehicleParams_default))
   \<and> (\<exists>s'. simulateStep (PhysicsEngine_ctor 0.1 VehicleParams_default)
          \<lparr> speed_ms = 10, acceleration_ms2 = 0, position_m = 0, grade_rad = 0.05,
            elevation_m = 120, engine_rpm = 2500, current_gear = 3, throttle_percent = 40,
            brake_percent = 5 \<rparr> 30 100 = Inr s'
        \<and> grade_rad s' = 0.05 \<and> elevation_m s' = 120 \<and> engine_rpm s' = 2500
        \<and> current_gear s' = 3 \<and> throttle_percent s' = 40 \<and> brake_percent s' = 5)"
  using simulateStep_frame [of "PhysicsEngine_ctor 0.1 VehicleParams_default"
      "\<lparr> speed_ms = 10, acceleration_ms2 = 0, position_m = 0, grade_rad = 0.05,
         elevation_m = 120, engine_rpm = 2500, current_gear = 3, throttle_percent = 40,
         brake_percent = 5 \<rparr>" 30 100]
  by (simp add: params_ok_def VehicleParams_default_def PhysicsEngine_ctor_def)

subsection \<open>Gear selection under the default parameters\<close>

lemma rpm_default_gears:
  "calculateEngineRPM VehicleParams_default v 1 = Inr (wheel_rpm v * 3.54 * 4.35)"
  "calculateEngineRPM VehicleParams_default v 2 = Inr (wheel_rpm v * 2.06 * 4.35)"
  "calculateEngineRPM VehicleParams_default v 3 = Inr (wheel_rpm v * 1.36 * 4.35)"
  "calculateEngineRPM VehicleParams_default v 4 = Inr (wheel_rpm v * 1.03 * 4.35)"
  "calculateEngineRPM VehicleParams_default v 5 = Inr (wheel_rpm v * 0.84 * 4.35)"
  "calculateEngineRPM VehicleParams_default v 6 = Inr (wheel_rpm v * 0.70 * 4.35)"
  unfolding wheel_rpm_def
  by (simp_all add: calculateEngineRPM_def array_at_def checked_div_def Let_def VehicleParams_default_def)

lemma default_limits:
  "idle_rpm VehicleParams_default = 800" "max_rpm VehicleParams_default = 6500"
  by (simp_all add: VehicleParams_default_def)

lemma loop_default_7: "selectOptimalGear_loop VehicleParams_default v t 7 = Inr 1"
  by (subst selectOptimalGear_loop.simps) simp

lemma loop_default_step:
  assumes "1 \<le> k" "k \<le> 6" "calculateEngineRPM VehicleParams_default v k = Inr r"
     "calculateEngineRPM VehicleParams_default t k = Inr rt"
  shows "selectOptimalGear_loop VehicleParams_default v t k =
     (if 800 \<le> r \<and> r \<le> 5525 \<and> rt \<le> 5850 then Inr k
      else selectOptimalGear_loop VehicleParams_default v t (k + 1))"
  using assms by (subst selectOptimalGear_loop.simps) (simp add: default_limits)

lemma selectOptimalGear_default:
  "selectOptimalGear VehicleParams_default v t =
     (if 800 \<le> wheel_rpm v * 3.54 * 4.35 \<and> wheel_rpm v * 3.54 * 4.35 \<le> 5525 \<and> wheel_rpm t * 3.54 * 4.35 \<le> 5850 then Inr 1
      else if 800 \<le> wheel_rpm v * 2.06 * 4.35 \<and> wheel_rpm v * 2.06 * 4.35 \<le> 5525 \<and> wheel_rpm t * 2.06 * 4.35 \<le> 5850 then Inr 2
      else if 800 \<le> wheel_rpm v * 1.36 * 4.35 \<and> wheel_rpm v * 1.36 * 4.35 \<le> 5525 \<and> wheel_rpm t * 1.36 * 4.35 \<le> 5850 then Inr 3
      else if 800 \<le> wheel_rpm v * 1.03 * 4.35 \<and> wheel_rpm v * 1.03 * 4.35 \<le> 5525 \<and> wheel_rpm t * 1.03 * 4.35 \<le> 5850 then Inr 4
      else if 800 \<le> wheel_rpm v * 0.84 * 4.35 \<and> wheel_rpm v * 0.84 * 4.35 \<le> 5525 \<and> wheel_rpm t * 0.84 * 4.35 \<le> 5850 then Inr 5
      else if 800 \<le> wheel_rpm v * 0.70 * 4.35 \<and> wheel_rpm v * 0.70 * 4.35 \<le> 5525 \<and> wheel_rpm t * 0.70 * 4.35 \<le> 5850 then Inr 6
      else Inr 1)"
proof -
  note step = loop_default_step [where v = v and t = t]
  have "selectOptimalGear_loop VehicleParams_default v t (6 + 1) = Inr 1"
    using loop_default_7 by simp
  note l6 = step [of 6, OF _ _ rpm_default_gears(6) rpm_default_gears(6), unfolded this]
  have "(5::int) + 1 = 6" by simp
  note l5 = step [of 5, OF _ _ rpm_default_gears(5) rpm_default_gears(5), unfolded this]
  have "(4::int) + 1 = 5" by simp
  note l4 = step [of 4, OF _ _ rpm_default_gears(4) rpm_default_gears(4), unfolded this]
  have "(3::int) + 1 = 4" by simp
  note l3 = step [of 3, OF _ _ rpm_default_gears(3) rpm_default_gears(3), unfolded this]
  have "(2::int) + 1 = 3" by simp
  note l2 = step [of 2, OF _ _ rpm_default_gears(2) rpm_default_gears(2), unfolded this]
  have "(1::int) + 1 = 2" by simp
  note l1 = step [of 1, OF _ _ rpm_default_gears(1) rpm_default_gears(1), unfolded this]
  show ?thesis
    unfolding selectOptimalGear_def
    by (simp only: l1 l2 l3 l4 l5 l6)
qed

text \<open>
  Claim C6, as amended. Under the default parameters, for every non-negative speed \<open>v\<close>:
  if the RPM in gear 6 at \<open>v\<close> is at most 0.85 times the maximal RPM,
  \<^verbatim>\<open>selectOptimalGear(v, v)\<close> returns a gear whose RPM at \<open>v\<close> is at most 0.85 times the
  maximal RPM; and if the RPM in gear 6 is above that limit, no gear passes the test, the
  function returns its default, gear 1, and the RPM in gear 1 is above the limit.
\<close>

theorem selectOptimalGear_rpm_within_limit:
  assumes "0 \<le> v"
    and "calculateEngineRPM VehicleParams_default v 6 = Inr r6"
  shows "(r6 \<le> 0.85 * max_rpm VehicleParams_default \<longrightarrow>
            (\<exists>g rpm. selectOptimalGear VehicleParams_default v v = Inr g
               \<and> calculateEngineRPM VehicleParams_default v g = Inr rpm
               \<and> rpm \<le> 0.85 * max_rpm VehicleParams_default))
       \<and> (0.85 * max_rpm VehicleParams_default < r6 \<longrightarrow>
            selectOptimalGear VehicleParams_default v v = Inr 1
            \<and> (\<exists>rpm. calculateEngineRPM VehicleParams_default v 1 = Inr rpm
                  \<and> 0.85 * max_rpm VehicleParams_default < rpm))"
proof -
  have lim: "0.85 * max_rpm VehicleParams_default = 5525"
    by (simp add: default_limits)
  define w where "w = wheel_rpm v"
  from assms(2) have r6: "r6 = w * 0.70 * 4.35"
    by (simp add: rpm_default_gears w_def)
  have w0: "0 \<le> w"
    using assms(1) by (simp add: w_def wheel_rpm_def)
  have low: "\<exists>g rpm. selectOptimalGear VehicleParams_default v v = Inr g
               \<and> calculateEngineRPM VehicleParams_default v g = Inr rpm
               \<and> rpm \<le> 5525" if le: "r6 \<le> 5525"
  proof -
    from le have le6: "w * 0.70 * 4.35 \<le> 5525"
      by (simp add: r6)
    have fallback: "w * 3.54 * 4.35 \<le> 5525" if "\<not> 800 \<le> w * 0.70 * 4.35"
      using that w0 by linarith
    have "(selectOptimalGear VehicleParams_default v v = Inr 1 \<and> w * 3.54 * 4.35 \<le> 5525)
        \<or> (selectOptimalGear VehicleParams_default v v = Inr 2 \<and> w * 2.06 * 4.35 \<le> 5525)
        \<or> (selectOptimalGear VehicleParams_default v v = Inr 3 \<and> w * 1.36 * 4.35 \<le> 5525)
        \<or> (selectOptimalGear VehicleParams_default v v = Inr 4 \<and> w * 1.03 * 4.35 \<le> 5525)
        \<or> (selectOptimalGear VehicleParams_default v v = Inr 5 \<and> w * 0.84 * 4.35 \<le> 5525)
        \<or> (selectOptimalGear VehicleParams_default v v = Inr 6 \<and> w * 0.70 * 4.35 \<le> 5525)"
      unfolding selectOptimalGear_default w_def [symmetric]
      using le6 fallback by auto
    then show ?thesis
      unfolding w_def using rpm_default_gears [of v] by blast
  qed
  have high: "selectOptimalGear VehicleParams_default v v = Inr 1
            \<and> (\<exists>rpm. calculateEngineRPM VehicleParams_default v 1 = Inr rpm \<and> 5525 < rpm)"
    if gt: "5525 < r6"
  proof -
    from gt have g6: "5525 < w * 0.70 * 4.35"
      by (simp add: r6)
    with w0 have g: "5525 < w * 0.84 * 4.35" "5525 < w * 1.03 * 4.35" "5525 < w * 1.36 * 4.35"
      "5525 < w * 2.06 * 4.35" "5525 < w * 3.54 * 4.35"
      by linarith+
    have "selectOptimalGear VehicleParams_default v v = Inr 1"
      unfolding selectOptimalGear_default w_def [symmetric]
      using g6 g by simp
    moreover have "calculateEngineRPM VehicleParams_default v 1 = Inr (w * 3.54 * 4.35)"
      by (simp add: rpm_default_gears w_def)
    ultimately show ?thesis using g(5) by blast
  qed
  show ?thesis
    unfolding lim using low high by blast
qed

theorem selectOptimalGear_rpm_within_limit_witness:
  "(0::real) \<le> 10
   \<and> calculateEngineRPM VehicleParams_default 10 6 = Inr (wheel_rpm 10 * 0.70 * 4.35)
   \<and> wheel_rpm 10 * 0.70 * 4.35 \<le> 0.85 * max_rpm VehicleParams_default
   \<and> (\<exists>g rpm. selectOptimalGear VehicleParams_default 10 10 = Inr g
           \<and> calculateEngineRPM VehicleParams_default 10 g = Inr rpm
           \<and> rpm \<le> 0.85 * max_rpm VehicleParams_default)
   \<and> (0::real) \<le> 80
   \<and> calculateEngineRPM VehicleParams_default 80 6 = Inr (wheel_rpm 80 * 0.70 * 4.35)
   \<and> 0.85 * max_rpm VehicleParams_default < wheel_rpm 80 * 0.70 * 4.35
   \<and> selectOptimalGear VehicleParams_default 80 80 = Inr 1
   \<and> (\<exists>rpm. calculateEngineRPM VehicleParams_default 80 1 = Inr rpm
          \<and> 0.85 * max_rpm VehicleParams_default < rpm)"
proof -
  have small: "wheel_rpm 10 * 0.70 * 4.35 \<le> 0.85 * max_rpm VehicleParams_default"
    using pi_ge_two by (simp add: wheel_rpm_def default_limits field_simps)
  have big: "0.85 * max_rpm VehicleParams_default < wheel_rpm 80 * 0.70 * 4.35"
    using pi_less_4 pi_gt_zero by (simp add: wheel_rpm_def default_limits field_simps)
  from selectOptimalGear_rpm_within_limit [OF _ rpm_default_gears(6), of 10] selectOptimalGear_rpm_within_limit [OF _ rpm_default_gears(6), of 80]
    small big
  show ?thesis by (simp add: rpm_default_gears)
qed

text \<open>
  The claim as first stated fails at 100 m/s: every gear is above the limit there, the
  function returns gear 1, and the RPM in gear 1 is above 0.85 times the maximal RPM.
\<close>

theorem selectOptimalGear_fallback_exceeds_limit:
  "selectOptimalGear VehicleParams_default 100 100 = Inr 1
   \<and> calculateEngineRPM VehicleParams_default 100 1 = Inr (100 / 0.32 * 60 / (2 * pi) * 3.54 * 4.35)
   \<and> \<not> 100 / 0.32 * 60 / (2 * pi) * 3.54 * 4.35 \<le> 0.85 * max_rpm VehicleParams_default"
proof -
  have w: "wheel_rpm 100 = 9375 / pi"
    by (simp add: wheel_rpm_def)
  have big: "2000 < 9375 / pi"
    using pi_less_4 pi_gt_zero by (simp add: field_simps)
  have "selectOptimalGear VehicleParams_default 100 100 = Inr 1"
    unfolding selectOptimalGear_default w using big by simp
  moreover have "calculateEngineRPM VehicleParams_default 100 1 = Inr (100 / 0.32 * 60 / (2 * pi) * 3.54 * 4.35)"
    by (simp add: rpm_default_gears wheel_rpm_def)
  moreover have "\<not> 100 / 0.32 * 60 / (2 * pi) * 3.54 * 4.35 \<le> 0.85 * max_rpm VehicleParams_default"
    using big by (simp add: default_limits)
  ultimately show ?thesis by blast
qed

section \<open>Properties of the motion estimator\<close>

subsection \<open>Computing with 2 and 5 rows\<close>

lemma upt_2: "[0..<2] = [0, 1]"
  by (simp add: upt_rec)

lemma upt_5: "[0..<5] = [0, 1, 2, 3, 4]"
  by (simp add: upt_rec)

lemma sum_lessThan_2: "(\<Sum>k<(2::nat). f k) = f 0 + (f 1 :: real)"
  by (simp add: eval_nat_numeral)

lemma sum_lessThan_5: "(\<Sum>k<(5::nat). f k) = f 0 + f 1 + f 2 + f 3 + (f 4 :: real)"
  by (simp add: eval_nat_numeral)

lemma mat_of_2_2: "mat_of 2 2 f = [[f 0 0, f 0 1], [f 1 0, f 1 1]]"
  by (simp add: mat_of_def upt_2)

lemma mat_of_2_5: "mat_of 2 5 f = [[f 0 0, f 0 1, f 0 2, f 0 3, f 0 4], [f 1 0, f 1 1, f 1 2, f 1 3, f 1 4]]"
  by (simp add: mat_of_def upt_2 upt_5)

lemma mat_of_5_2: "mat_of 5 2 f = [[f 0 0, f 0 1], [f 1 0, f 1 1], [f 2 0, f 2 1], [f 3 0, f 3 1], [f 4 0, f 4 1]]"
  by (simp add: mat_of_def upt_2 upt_5)

lemma mat_of_5_5: "mat_of 5 5 f =
   [[f 0 0, f 0 1, f 0 2, f 0 3, f 0 4], [f 1 0, f 1 1, f 1 2, f 1 3, f 1 4],
    [f 2 0, f 2 1, f 2 2, f 2 3, f 2 4], [f 3 0, f 3 1, f 3 2, f 3 3, f 3 4],
    [f 4 0, f 4 1, f 4 2, f 4 3, f 4 4]]"
  by (simp add: mat_of_def upt_5)

lemma is_mat_rows: "is_mat r c M \<Longrightarrow> rows M = r"
  by (simp add: is_mat_def rows_def)

lemma is_mat_cols: "is_mat r c M \<Longrightarrow> 0 < r \<Longrightarrow> cols M = c"
  by (cases M) (simp_all add: is_mat_def cols_def)

lemma is_mat_mat_of: "is_mat r c (mat_of r c f)"
  by (simp add: is_mat_def mat_of_def list_all_iff)

lemma is_mat_eq_mat_of:
  assumes "is_mat r c M"
  shows "M = mat_of r c (coeff M)"
proof (rule nth_equalityI)
  show "length M = length (mat_of r c (coeff M))"
    using assms by (simp add: is_mat_def mat_of_def)
next
  fix i assume i: "i < length M"
  then have len: "length (M ! i) = c"
    using assms by (simp add: is_mat_def list_all_length)
  have "M ! i = map (\<lambda>j. M ! i ! j) [0..<c]"
    unfolding len [symmetric] by (simp add: map_nth)
  then show "M ! i = mat_of r c (coeff M) ! i"
    using i assms by (simp add: mat_of_def coeff_def is_mat_def)
qed

lemma is_mat_5_5_expand:
  assumes "is_mat 5 5 M"
  shows "M = [[coeff M 0 0, coeff M 0 1, coeff M 0 2, coeff M 0 3, coeff M 0 4],
              [coeff M 1 0, coeff M 1 1, coeff M 1 2, coeff M 1 3, coeff M 1 4],
              [coeff M 2 0, coeff M 2 1, coeff M 2 2, coeff M 2 3, coeff M 2 4],
              [coeff M 3 0, coeff M 3 1, coeff M 3 2, coeff M 3 3, coeff M 3 4],
              [coeff M 4 0, coeff M 4 1, coeff M 4 2, coeff M 4 3, coeff M 4 4]]"
  using is_mat_eq_mat_of [OF assms] by (simp only: mat_of_5_5)

lemma length_5_expand:
  assumes "length (v :: real list) = 5"
  shows "v = [v ! 0, v ! 1, v ! 2, v ! 3, v ! 4]"
proof -
  have "v = map (\<lambda>i. v ! i) [0..<5]"
    unfolding assms [symmetric] by (simp add: map_nth)
  then show ?thesis by (simp only: upt_5 list.map)
qed

lemma rows_literal [simp]: "rows [r1, r2] = 2" "rows [r1, r2, r3, r4, r5] = 5"
  by (simp_all add: rows_def)

lemma cols_literal [simp]: "cols ([a, b] # M) = 2" "cols ([a, b, c, d, e] # M) = 5"
  by (simp_all add: cols_def)

lemma replicate_5: "replicate 5 x = [x, x, x, x, x]"
  by (simp add: eval_nat_numeral)

lemma coeff_Cons_0 [simp]: "coeff (r1 # M) 0 j = r1 ! j"
  by (simp add: coeff_def)

lemma coeff_Cons_Suc [simp]: "coeff (r1 # M) (Suc i) j = coeff M i j"
  by (simp add: coeff_def)

lemma coeff_Cons_numeral [simp]: "coeff (r1 # M) (numeral n) j = coeff M (pred_numeral n) j"
  by (simp add: coeff_def)

lemma list_update_Cons_numeral [simp]:
  "(x # xs)[numeral n := y] = x # xs[pred_numeral n := y]"
  by (simp add: numeral_eq_Suc)

lemma EKF_ctor_fields:
  "EKF_ctor dt = \<lparr> dt_e = dt, state_dim_e = 5, meas_dim_e = 2, F_e = F_of dt, H_e = H_fixed,
      Q_e = Q_fixed, R_e = R_fixed,
      P_e = [[10, 0, 0, 0, 0], [0, 10, 0, 0, 0], [0, 0, 10, 0, 0], [0, 0, 0, 10, 0], [0, 0, 0, 0, 10]],
      x_e = [0, 0, 0, 0, 0] \<rparr>"
  by (simp add: EKF_ctor_def Let_def Identity_def Zero_def Zero_vec_def mat_scale_def set_coeff_def
      mat_of_5_5 mat_of_2_5 mat_of_2_2 F_of_def H_fixed_def Q_fixed_def R_fixed_def replicate_5)

lemma EKF_inv_ctor: "EKF_inv (EKF_ctor dt)"
  by (simp add: EKF_ctor_fields EKF_inv_def is_mat_def F_of_def)

subsection \<open>The angle loops and the predicted state\<close>

lemma predict_loop1_le: "predict_loop1 y \<le> pi"
  by (induction y rule: predict_loop1.induct) (subst predict_loop1.simps, simp)

lemma predict_loop1_shift: "\<exists>k::int. predict_loop1 y = y + 2 * pi * of_int k"
proof (induction y rule: predict_loop1.induct)
  case (1 y)
  show ?case
  proof (cases "y > pi")
    case True
    with 1 obtain k :: int where "predict_loop1 (y - 2 * pi) = y - 2 * pi + 2 * pi * of_int k"
      by blast
    then have "predict_loop1 y = y + 2 * pi * of_int (k - 1)"
      using True by (subst predict_loop1.simps) (simp add: algebra_simps)
    then show ?thesis ..
  next
    case False
    then have "predict_loop1 y = y + 2 * pi * of_int 0"
      by (subst predict_loop1.simps) simp
    then show ?thesis ..
  qed
qed

lemma predict_loop2_ge: "- pi \<le> predict_loop2 y"
  by (induction y rule: predict_loop2.induct) (subst predict_loop2.simps, simp)

lemma predict_loop2_le: "y \<le> pi \<Longrightarrow> predict_loop2 y \<le> pi"
proof (induction y rule: predict_loop2.induct)
  case (1 y)
  show ?case
  proof (cases "y < - pi")
    case True
    then have "y + 2 * pi \<le> pi" by simp
    with 1 True show ?thesis by (subst predict_loop2.simps) simp
  next
    case False
    with 1 show ?thesis by (subst predict_loop2.simps) simp
  qed
qed

lemma predict_loop2_shift: "\<exists>k::int. predict_loop2 y = y + 2 * pi * of_int k"
proof (induction y rule: predict_loop2.induct)
  case (1 y)
  show ?case
  proof (cases "y < - pi")
    case True
    with 1 obtain k :: int where "predict_loop2 (y + 2 * pi) = y + 2 * pi + 2 * pi * of_int k"
      by blast
    then have "predict_loop2 y = y + 2 * pi * of_int (k + 1)"
      using True by (subst predict_loop2.simps) (simp add: algebra_simps)
    then show ?thesis ..
  next
    case False
    then have "predict_loop2 y = y + 2 * pi * of_int 0"
      by (subst predict_loop2.simps) simp
    then show ?thesis ..
  qed
qed

lemma predict_loops_shift: "\<exists>k::int. predict_loop2 (predict_loop1 y) = y + 2 * pi * of_int k"
proof -
  obtain k1 :: int where k1: "predict_loop1 y = y + 2 * pi * of_int k1"
    using predict_loop1_shift by blast
  obtain k2 :: int where k2: "predict_loop2 (predict_loop1 y) = predict_loop1 y + 2 * pi * of_int k2"
    using predict_loop2_shift by blast
  from k2 have "predict_loop2 (predict_loop1 y) = (y + 2 * pi * of_int k1) + 2 * pi * of_int k2"
    by (simp only: k1 [symmetric])
  also have "\<dots> = y + 2 * pi * of_int (k1 + k2)"
    by (simp add: algebra_simps)
  finally show ?thesis ..
qed

lemma predict_F:
  assumes "is_mat 5 5 F"
  shows "set_coeff (set_coeff (setIdentity F) 0 2 dt) 1 3 dt = F_of dt"
proof -
  have "rows F = 5" "cols F = 5"
    using assms by (simp_all add: is_mat_rows is_mat_cols)
  then show ?thesis
    by (simp add: setIdentity_def Identity_def mat_of_5_5 set_coeff_def F_of_def)
qed

lemma EKF_predict_x:
  assumes "length (x_e e) = 5"
  shows "x_e (EKF_predict e a r) =
     [x_e e ! 0 + x_e e ! 2 * dt_e e + 0.5 * (a * cos (x_e e ! 4)) * dt_e e * dt_e e,
      x_e e ! 1 + x_e e ! 3 * dt_e e + 0.5 * (a * sin (x_e e ! 4)) * dt_e e * dt_e e,
      x_e e ! 2 + a * cos (x_e e ! 4) * dt_e e,
      x_e e ! 3 + a * sin (x_e e ! 4) * dt_e e,
      predict_loop2 (predict_loop1 (x_e e ! 4 + r * dt_e e))]"
proof -
  obtain x0 x1 x2 x3 x4 where x: "x_e e = [x0, x1, x2, x3, x4]"
    using length_5_expand [OF assms] by blast
  show ?thesis
    by (simp add: EKF_predict_def Let_def x)
qed

lemma EKF_predict_P:
  assumes "is_mat 5 5 (F_e e)"
  shows "P_e (EKF_predict e a r) =
     mat_add (mat_mul (mat_mul (F_of (dt_e e)) (P_e e)) (mat_transpose (F_of (dt_e e)))) (Q_e e)"
  unfolding EKF_predict_def Let_def predict_F [OF assms] by simp

lemma EKF_predict_other:
  "dt_e (EKF_predict e a r) = dt_e e" "state_dim_e (EKF_predict e a r) = state_dim_e e"
  "meas_dim_e (EKF_predict e a r) = meas_dim_e e" "H_e (EKF_predict e a r) = H_e e"
  "Q_e (EKF_predict e a r) = Q_e e" "R_e (EKF_predict e a r) = R_e e"
  by (simp_all add: EKF_predict_def Let_def)

lemma predict_loop1_id: "y \<le> pi \<Longrightarrow> predict_loop1 y = y"
  by (subst predict_loop1.simps) simp

lemma predict_loop1_gt: "- pi < y \<Longrightarrow> - pi < predict_loop1 y"
proof (induction y rule: predict_loop1.induct)
  case (1 y)
  show ?case
  proof (cases "y > pi")
    case True
    then have "- pi < y - 2 * pi" by simp
    with 1 True show ?thesis by (subst predict_loop1.simps) simp
  next
    case False
    with 1 show ?thesis by (subst predict_loop1.simps) simp
  qed
qed

lemma predict_loop2_id: "- pi \<le> y \<Longrightarrow> predict_loop2 y = y"
  by (subst predict_loop2.simps) simp

lemma predict_loop2_lt: "y < pi \<Longrightarrow> predict_loop2 y < pi"
proof (induction y rule: predict_loop2.induct)
  case (1 y)
  show ?case
  proof (cases "y < - pi")
    case True
    then have "y + 2 * pi < pi" by simp
    with 1 True show ?thesis by (subst predict_loop2.simps) simp
  next
    case False
    with 1 show ?thesis by (subst predict_loop2.simps) simp
  qed
qed

lemma predict_loops_wrap:
  "(\<exists>k::int. predict_loop2 (predict_loop1 a) = a + 2 * pi * of_int k)
   \<and> - pi \<le> predict_loop2 (predict_loop1 a) \<and> predict_loop2 (predict_loop1 a) \<le> pi
   \<and> (- pi \<le> a \<and> a \<le> pi \<longrightarrow> predict_loop2 (predict_loop1 a) = a)
   \<and> (pi < a \<longrightarrow> - pi < predict_loop2 (predict_loop1 a))
   \<and> (a < - pi \<longrightarrow> predict_loop2 (predict_loop1 a) < pi)"
proof -
  have "predict_loop2 (predict_loop1 a) = a" if "- pi \<le> a" "a \<le> pi"
    using that by (simp add: predict_loop1_id predict_loop2_id)
  moreover have "- pi < predict_loop2 (predict_loop1 a)" if "pi < a"
  proof -
    from that have "- pi < a" using pi_gt_zero by linarith
    then have "- pi < predict_loop1 a" by (rule predict_loop1_gt)
    then show ?thesis by (simp add: predict_loop2_id)
  qed
  moreover have "predict_loop2 (predict_loop1 a) < pi" if "a < - pi"
  proof -
    from that have "a < pi" using pi_gt_zero by linarith
    then show ?thesis by (simp add: predict_loop1_id predict_loop2_lt)
  qed
  ultimately show ?thesis
    using predict_loops_shift [of a] predict_loop2_ge [of "predict_loop1 a"]
      predict_loop2_le [OF predict_loop1_le, of a]
    by blast
qed

text \<open>
  Claim C1, as amended. For every stored state \<open>(x, y, vx, vy, yaw)\<close>, covariance \<open>P\<close>,
  time delta \<open>dt\<close> and inputs, \<^verbatim>\<open>predict\<close> stores the state
  \<open>x + vx dt + 0.5 (a cos yaw) dt\<^sup>2\<close>, \<open>y + vy dt + 0.5 (a sin yaw) dt\<^sup>2\<close>,
  \<open>vx + a cos yaw dt\<close>, \<open>vy + a sin yaw dt\<close> and a new yaw, the rotation using the yaw
  before the step. The new yaw is \<open>yaw + yawRate dt\<close> wrapped into the closed interval
  from \<open>-\<pi>\<close> to \<open>\<pi>\<close>: it differs from \<open>yaw + yawRate dt\<close> by a whole number of turns, lies
  between \<open>-\<pi>\<close> and \<open>\<pi>\<close> inclusive, is \<open>yaw + yawRate dt\<close> itself when that already lies
  there (so \<open>-\<pi>\<close> stays \<open>-\<pi>\<close>), is above \<open>-\<pi>\<close> when wrapped down from above \<open>\<pi>\<close> and
  below \<open>\<pi>\<close> when wrapped up from below \<open>-\<pi>\<close>. The stored covariance becomes
  \<open>F P F\<^sup>T + Q\<close> with \<open>F\<close> the identity with \<open>dt\<close> at (0,2) and (1,3) and \<open>Q\<close> the fixed
  diagonal.
\<close>

theorem EKF_predict_state_and_covariance:
  assumes "EKF_inv e" and "x_e e = [x, y, vx, vy, yaw]" and "dt_e e = dt"
  shows "\<exists>yaw'. x_e (EKF_predict e forwardAccel yawRate) =
           [x + vx * dt + 0.5 * (forwardAccel * cos yaw) * dt\<^sup>2,
            y + vy * dt + 0.5 * (forwardAccel * sin yaw) * dt\<^sup>2,
            vx + forwardAccel * cos yaw * dt,
            vy + forwardAccel * sin yaw * dt,
            yaw']
       \<and> (\<exists>k::int. yaw' = yaw + yawRate * dt + 2 * pi * of_int k)
       \<and> - pi \<le> yaw' \<and> yaw' \<le> pi
       \<and> (- pi \<le> yaw + yawRate * dt \<and> yaw + yawRate * dt \<le> pi \<longrightarrow> yaw' = yaw + yawRate * dt)
       \<and> (pi < yaw + yawRate * dt \<longrightarrow> - pi < yaw')
       \<and> (yaw + yawRate * dt < - pi \<longrightarrow> yaw' < pi)
       \<and> P_e (EKF_predict e forwardAccel yawRate) =
           mat_add (mat_mul (mat_mul (F_of dt) (P_e e)) (mat_transpose (F_of dt))) Q_fixed"
proof -
  from assms(1) have len: "length (x_e e) = 5" and F: "is_mat 5 5 (F_e e)" and Q: "Q_e e = Q_fixed"
    by (simp_all add: EKF_inv_def)
  have "x_e (EKF_predict e forwardAccel yawRate) =
           [x + vx * dt + 0.5 * (forwardAccel * cos yaw) * dt\<^sup>2,
            y + vy * dt + 0.5 * (forwardAccel * sin yaw) * dt\<^sup>2,
            vx + forwardAccel * cos yaw * dt,
            vy + forwardAccel * sin yaw * dt,
            predict_loop2 (predict_loop1 (yaw + yawRate * dt))]"
    unfolding EKF_predict_x [OF len] by (simp add: assms(2,3) power2_eq_square)
  moreover note predict_loops_wrap [of "yaw + yawRate * dt"]
  moreover have "P_e (EKF_predict e forwardAccel yawRate) =
           mat_add (mat_mul (mat_mul (F_of dt) (P_e e)) (mat_transpose (F_of dt))) Q_fixed"
    unfolding EKF_predict_P [OF F] by (simp add: Q assms(3))
  ultimately show ?thesis by blast
qed

theorem EKF_predict_state_and_covariance_witness:
  "EKF_inv (EKF_ctor 0.1) \<and> x_e (EKF_ctor 0.1) = [0, 0, 0, 0, 0] \<and> dt_e (EKF_ctor 0.1) = 0.1
   \<and> - pi \<le> 0 + 0.5 * 0.1 \<and> 0 + 0.5 * 0.1 \<le> pi
   \<and> x_e (EKF_predict (EKF_ctor 0.1) 2 0.5) = [0.01, 0, 0.2, 0, 0.05]
   \<and> P_e (EKF_predict (EKF_ctor 0.1) 2 0.5)
        = mat_add (mat_mul (mat_mul (F_of 0.1) (P_e (EKF_ctor 0.1))) (mat_transpose (F_of 0.1))) Q_fixed"
proof -
  have h1: "EKF_inv (EKF_ctor 0.1)" by (rule EKF_inv_ctor)
  have h2: "x_e (EKF_ctor 0.1) = [0, 0, 0, 0, 0]" by (simp add: EKF_ctor_fields)
  have h3: "dt_e (EKF_ctor 0.1) = 0.1" by (simp add: EKF_ctor_fields)
  have r: "- pi \<le> 0.05" "(0.05::real) \<le> pi"
    using pi_ge_two by simp_all
  from EKF_predict_state_and_covariance [OF h1 h2 h3, of 2 "0.5"] r h1 h2 h3
  show ?thesis by (auto simp: power2_eq_square)
qed

text \<open>
  The claim C1 as first stated, with a wrap into the half-open interval that excludes
  \<open>-\<pi>\<close>, fails on a fresh estimator with time delta 1 and yaw rate \<open>-\<pi>\<close>: the new yaw is
  \<open>-\<pi>\<close>, not its representative \<open>-\<pi> + 2\<pi>\<close> in the half-open interval.
\<close>

theorem EKF_predict_wrap_keeps_minus_pi:
  "x_e (EKF_ctor 1) = [0, 0, 0, 0, 0] \<and> dt_e (EKF_ctor 1) = 1
   \<and> x_e (EKF_predict (EKF_ctor 1) 0 (- pi)) ! 4 = - pi
   \<and> \<not> (- pi < x_e (EKF_predict (EKF_ctor 1) 0 (- pi)) ! 4)
   \<and> x_e (EKF_predict (EKF_ctor 1) 0 (- pi)) ! 4 \<noteq> 0 + (- pi) * 1 + 2 * pi * of_int 1"
proof -
  have l1: "predict_loop1 (- pi) = - pi"
    by (subst predict_loop1.simps) simp
  have l2: "predict_loop2 (- pi) = - pi"
    by (subst predict_loop2.simps) simp
  have x: "x_e (EKF_ctor 1) = [0, 0, 0, 0, 0]" and d: "dt_e (EKF_ctor 1) = 1"
    by (simp_all add: EKF_ctor_fields)
  have "x_e (EKF_predict (EKF_ctor 1) 0 (- pi)) ! 4 = - pi"
    by (simp add: EKF_predict_x x d l1 l2)
  then show ?thesis using x d by simp
qed

text \<open>
  Claim C4, as amended. After any call to \<^verbatim>\<open>predict\<close> the stored yaw lies in the closed
  interval from \<open>-\<pi>\<close> to \<open>\<pi>\<close>: both loops compare strictly, so \<open>-\<pi>\<close> itself is kept.
\<close>

theorem EKF_predict_yaw_range:
  assumes "EKF_inv e"
  shows "- pi \<le> x_e (EKF_predict e forwardAccel yawRate) ! 4
       \<and> x_e (EKF_predict e forwardAccel yawRate) ! 4 \<le> pi"
proof -
  from assms have len: "length (x_e e) = 5"
    by (simp add: EKF_inv_def)
  have "x_e (EKF_predict e forwardAccel yawRate) ! 4
          = predict_loop2 (predict_loop1 (x_e e ! 4 + yawRate * dt_e e))"
    unfolding EKF_predict_x [OF len] by simp
  then show ?thesis
    using predict_loop2_ge predict_loop2_le [OF predict_loop1_le] by simp
qed

theorem EKF_predict_yaw_range_witness:
  "EKF_inv (EKF_ctor 0.1)
   \<and> - pi \<le> x_e (EKF_predict (EKF_ctor 0.1) 1 40) ! 4
   \<and> x_e (EKF_predict (EKF_ctor 0.1) 1 40) ! 4 \<le> pi"
  using EKF_predict_yaw_range [OF EKF_inv_ctor, of "0.1" 1 40] EKF_inv_ctor [of "0.1"] by simp

subsection \<open>Initialisation and dimension errors\<close>

lemma EKF_init_ok:
  assumes "EKF_inv e" and "length s = 5"
  shows "EKF_init e s = (None, e\<lparr> x_e := s,
      P_e := [[10, 0, 0, 0, 0], [0, 10, 0, 0, 0], [0, 0, 10, 0, 0], [0, 0, 0, 10, 0], [0, 0, 0, 0, 10]] \<rparr>)"
proof -
  from assms(1) have P: "is_mat 5 5 (P_e e)" and d: "state_dim_e e = 5"
    by (simp_all add: EKF_inv_def)
  have "rows (P_e e) = 5" "cols (P_e e) = 5"
    using P by (simp_all add: is_mat_rows is_mat_cols)
  then show ?thesis
    using assms(2) d
    by (simp add: EKF_init_def setIdentity_def Identity_def mat_scale_def mat_of_5_5)
qed

text \<open>
  The claim C4 as first stated, with the half-open interval, fails for a stored yaw of
  \<open>-\<pi>\<close> and a zero yaw rate: neither loop runs and the yaw stays \<open>-\<pi>\<close>.
\<close>

theorem EKF_predict_yaw_minus_pi:
  "x_e (EKF_predict (snd (EKF_init (EKF_ctor 0.1) [0, 0, 0, 0, - pi])) 0 0) ! 4 = - pi
   \<and> \<not> (- pi < x_e (EKF_predict (snd (EKF_init (EKF_ctor 0.1) [0, 0, 0, 0, - pi])) 0 0) ! 4)"
proof -
  have l1: "predict_loop1 (- pi) = - pi"
    by (subst predict_loop1.simps) simp
  have l2: "predict_loop2 (- pi) = - pi"
    by (subst predict_loop2.simps) simp
  have "EKF_init (EKF_ctor 0.1) [0, 0, 0, 0, - pi] = (None, (EKF_ctor 0.1)\<lparr> x_e := [0, 0, 0, 0, - pi],
      P_e := [[10, 0, 0, 0, 0], [0, 10, 0, 0, 0], [0, 0, 10, 0, 0], [0, 0, 0, 10, 0], [0, 0, 0, 0, 10]] \<rparr>)"
    by (rule EKF_init_ok [OF EKF_inv_ctor]) simp
  then have "x_e (EKF_predict (snd (EKF_init (EKF_ctor 0.1) [0, 0, 0, 0, - pi])) 0 0) ! 4 = - pi"
    by (simp add: EKF_predict_x l1 l2)
  then show ?thesis by simp
qed

text \<open>
  Claim C9. For every vector \<open>s\<close> of 5 components, \<^verbatim>\<open>init(s)\<close> does not throw, \<^verbatim>\<open>state()\<close>
  then returns \<open>s\<close>, and the stored covariance is 10 on the diagonal and 0 elsewhere,
  whatever state and covariance were stored before.
\<close>

theorem EKF_init_then_state:
  assumes "EKF_inv e" and "length s = 5"
  shows "fst (EKF_init e s) = None
       \<and> EKF_state (snd (EKF_init e s)) = s
       \<and> P_e (snd (EKF_init e s)) =
           [[10, 0, 0, 0, 0], [0, 10, 0, 0, 0], [0, 0, 10, 0, 0], [0, 0, 0, 10, 0], [0, 0, 0, 0, 10]]"
  by (simp add: EKF_init_ok [OF assms] EKF_state_def)

subsection \<open>The invariant is kept\<close>

lemma all_less_5: "(\<forall>i<5::nat. Q i) \<longleftrightarrow> Q 0 \<and> Q 1 \<and> Q 2 \<and> Q 3 \<and> Q 4"
proof -
  have "{..<5::nat} = {0, 1, 2, 3, 4}" by auto
  then have "(\<forall>i<5::nat. Q i) \<longleftrightarrow> (\<forall>i\<in>{0, 1, 2, 3, 4}. Q i)"
    by (metis lessThan_iff)
  then show ?thesis by simp
qed

lemma is_mat_5_5_obtain:
  assumes "is_mat 5 5 M"
  obtains p00 p01 p02 p03 p04 p10 p11 p12 p13 p14 p20 p21 p22 p23 p24
          p30 p31 p32 p33 p34 p40 p41 p42 p43 p44 :: real
  where "M = [[p00, p01, p02, p03, p04], [p10, p11, p12, p13, p14], [p20, p21, p22, p23, p24],
              [p30, p31, p32, p33, p34], [p40, p41, p42, p43, p44]]"
  by (rule that) (rule is_mat_5_5_expand [OF assms])

lemma length_5_obtain:
  assumes "length (v :: real list) = 5"
  obtains v0 v1 v2 v3 v4 where "v = [v0, v1, v2, v3, v4]"
  by (rule that) (rule length_5_expand [OF assms])

lemma quad_form_5:
  "quad_form M [v0, v1, v2, v3, v4] =
     v0 * coeff M 0 0 * v0 + v0 * coeff M 0 1 * v1 + v0 * coeff M 0 2 * v2 + v0 * coeff M 0 3 * v3 + v0 * coeff M 0 4 * v4
   + (v1 * coeff M 1 0 * v0 + v1 * coeff M 1 1 * v1 + v1 * coeff M 1 2 * v2 + v1 * coeff M 1 3 * v3 + v1 * coeff M 1 4 * v4)
   + (v2 * coeff M 2 0 * v0 + v2 * coeff M 2 1 * v1 + v2 * coeff M 2 2 * v2 + v2 * coeff M 2 3 * v3 + v2 * coeff M 2 4 * v4)
   + (v3 * coeff M 3 0 * v0 + v3 * coeff M 3 1 * v1 + v3 * coeff M 3 2 * v2 + v3 * coeff M 3 3 * v3 + v3 * coeff M 3 4 * v4)
   + (v4 * coeff M 4 0 * v0 + v4 * coeff M 4 1 * v1 + v4 * coeff M 4 2 * v2 + v4 * coeff M 4 3 * v3 + v4 * coeff M 4 4 * v4)"
  by (simp add: quad_form_def eval_nat_numeral add.assoc)

lemma predict_cov_literal:
  "mat_add (mat_mul (mat_mul (F_of dt)
       [[p00, p01, p02, p03, p04], [p10, p11, p12, p13, p14], [p20, p21, p22, p23, p24],
        [p30, p31, p32, p33, p34], [p40, p41, p42, p43, p44]]) (mat_transpose (F_of dt))) Q_fixed
   = [[p00 + dt * p20 + (p02 + dt * p22) * dt + 0.001, p01 + dt * p21 + (p03 + dt * p23) * dt,
         p02 + dt * p22, p03 + dt * p23, p04 + dt * p24],
      [p10 + dt * p30 + (p12 + dt * p32) * dt, p11 + dt * p31 + (p13 + dt * p33) * dt + 0.001,
         p12 + dt * p32, p13 + dt * p33, p14 + dt * p34],
      [p20 + p22 * dt, p21 + p23 * dt, p22 + 0.05, p23, p24],
      [p30 + p32 * dt, p31 + p33 * dt, p32, p33 + 0.05, p34],
      [p40 + p42 * dt, p41 + p43 * dt, p42, p43, p44 + 0.01]]"
  by (simp add: mat_add_def mat_mul_def mat_transpose_def F_of_def Q_fixed_def mat_of_5_5 sum_lessThan_5)

lemma innovation_cov_literal:
  "mat_add (mat_mul (mat_mul H_fixed [[p00, p01, p02, p03, p04], [p10, p11, p12, p13, p14], [p20, p21, p22, p23, p24], [p30, p31, p32, p33, p34], [p40, p41, p42, p43, p44]]) (mat_transpose H_fixed)) R_fixed
     = [[p00 + 3, p01], [p10, p11 + 3]]"
  by (simp add: mat_add_def mat_mul_def mat_transpose_def H_fixed_def R_fixed_def
      mat_of_2_5 mat_of_5_2 mat_of_2_2 sum_lessThan_5)

lemma update_cov_literal:
  "mat_mul (mat_sub (Identity 5 5)
       (mat_mul (mat_mul (mat_mul [[p00, p01, p02, p03, p04], [p10, p11, p12, p13, p14], [p20, p21, p22, p23, p24], [p30, p31, p32, p33, p34], [p40, p41, p42, p43, p44]] (mat_transpose H_fixed)) [[s00, s01], [s10, s11]]) H_fixed))
     [[p00, p01, p02, p03, p04], [p10, p11, p12, p13, p14], [p20, p21, p22, p23, p24], [p30, p31, p32, p33, p34], [p40, p41, p42, p43, p44]]
   = [[p00 - ((p00 * s00 + p01 * s10) * p00 + (p00 * s01 + p01 * s11) * p10),
       p01 - ((p00 * s00 + p01 * s10) * p01 + (p00 * s01 + p01 * s11) * p11),
       p02 - ((p00 * s00 + p01 * s10) * p02 + (p00 * s01 + p01 * s11) * p12),
       p03 - ((p00 * s00 + p01 * s10) * p03 + (p00 * s01 + p01 * s11) * p13),
       p04 - ((p00 * s00 + p01 * s10) * p04 + (p00 * s01 + p01 * s11) * p14)],
      [p10 - ((p10 * s00 + p11 * s10) * p00 + (p10 * s01 + p11 * s11) * p10),
       p11 - ((p10 * s00 + p11 * s10) * p01 + (p10 * s01 + p11 * s11) * p11),
       p12 - ((p10 * s00 + p11 * s10) * p02 + (p10 * s01 + p11 * s11) * p12),
       p13 - ((p10 * s00 + p11 * s10) * p03 + (p10 * s01 + p11 * s11) * p13),
       p14 - ((p10 * s00 + p11 * s10) * p04 + (p10 * s01 + p11 * s11) * p14)],
      [p20 - ((p20 * s00 + p21 * s10) * p00 + (p20 * s01 + p21 * s11) * p10),
       p21 - ((p20 * s00 + p21 * s10) * p01 + (p20 * s01 + p21 * s11) * p11),
       p22 - ((p20 * s00 + p21 * s10) * p02 + (p20 * s01 + p21 * s11) * p12),
       p23 - ((p20 * s00 + p21 * s10) * p03 + (p20 * s01 + p21 * s11) * p13),
       p24 - ((p20 * s00 + p21 * s10) * p04 + (p20 * s01 + p21 * s11) * p14)],
      [p30 - ((p30 * s00 + p31 * s10) * p00 + (p30 * s01 + p31 * s11) * p10),
       p31 - ((p30 * s00 + p31 * s10) * p01 + (p30 * s01 + p31 * s11) * p11),
       p32 - ((p30 * s00 + p31 * s10) * p02 + (p30 * s01 + p31 * s11) * p12),
       p33 - ((p30 * s00 + p31 * s10) * p03 + (p30 * s01 + p31 * s11) * p13),
       p34 - ((p30 * s00 + p31 * s10) * p04 + (p30 * s01 + p31 * s11) * p14)],
      [p40 - ((p40 * s00 + p41 * s10) * p00 + (p40 * s01 + p41 * s11) * p10),
       p41 - ((p40 * s00 + p41 * s10) * p01 + (p40 * s01 + p41 * s11) * p11),
       p42 - ((p40 * s00 + p41 * s10) * p02 + (p40 * s01 + p41 * s11) * p12),
       p43 - ((p40 * s00 + p41 * s10) * p03 + (p40 * s01 + p41 * s11) * p13),
       p44 - ((p40 * s00 + p41 * s10) * p04 + (p40 * s01 + p41 * s11) * p14)]]"
  by (simp add: mat_mul_def mat_sub_def mat_transpose_def Identity_def H_fixed_def
      mat_of_2_5 mat_of_5_2 mat_of_5_5 sum_lessThan_5 sum_lessThan_2 algebra_simps)

lemma symmetric_5_obtain:
  assumes "is_mat 5 5 M" and "symmetric M"
  obtains p00 p01 p02 p03 p04 p11 p12 p13 p14 p22 p23 p24 p33 p34 p44 :: real
  where "M = [[p00, p01, p02, p03, p04], [p01, p11, p12, p13, p14], [p02, p12, p22, p23, p24], [p03, p13, p23, p33, p34], [p04, p14, p24, p34, p44]]"
proof -
  from assms(1) have r: "rows M = 5" by (rule is_mat_rows)
  have sym: "coeff M i j = coeff M j i" if "i < 5" "j < 5" for i j
    using assms(2) that unfolding symmetric_def r by blast
  have s: "coeff M 1 0 = coeff M 0 1" "coeff M 2 0 = coeff M 0 2"
    "coeff M 3 0 = coeff M 0 3" "coeff M 4 0 = coeff M 0 4" "coeff M 2 1 = coeff M 1 2"
    "coeff M 3 1 = coeff M 1 3" "coeff M 4 1 = coeff M 1 4" "coeff M 3 2 = coeff M 2 3"
    "coeff M 4 2 = coeff M 2 4" "coeff M 4 3 = coeff M 3 4"
    by (rule sym; simp)+
  show thesis
    by (rule that) (rule is_mat_5_5_expand [OF assms(1), unfolded s])
qed

lemma symmetric_literal_5:
  "symmetric [[a00, a01, a02, a03, a04], [a10, a11, a12, a13, a14], [a20, a21, a22, a23, a24],
              [a30, a31, a32, a33, a34], [a40, a41, a42, a43, a44]]
   \<longleftrightarrow> a10 = a01 \<and> a20 = a02 \<and> a30 = a03 \<and> a40 = a04 \<and> a21 = a12 \<and> a31 = a13
       \<and> a41 = a14 \<and> a32 = a23 \<and> a42 = a24 \<and> a43 = a34"
  unfolding symmetric_def rows_literal all_less_5 by (simp, blast)

lemma predict_cov_symmetric:
  assumes "is_mat 5 5 P" and "symmetric P"
  shows "symmetric (mat_add (mat_mul (mat_mul (F_of dt) P) (mat_transpose (F_of dt))) Q_fixed)"
proof -
  obtain p00 p01 p02 p03 p04 p11 p12 p13 p14 p22 p23 p24 p33 p34 p44 :: real
    where P: "P = [[p00, p01, p02, p03, p04], [p01, p11, p12, p13, p14], [p02, p12, p22, p23, p24], [p03, p13, p23, p33, p34], [p04, p14, p24, p34, p44]]"
    using assms by (rule symmetric_5_obtain)
  show ?thesis
    unfolding P predict_cov_literal symmetric_literal_5 by (simp add: algebra_simps)
qed

lemma predict_cov_psd:
  assumes "is_mat 5 5 P" and "psd P"
  shows "psd (mat_add (mat_mul (mat_mul (F_of dt) P) (mat_transpose (F_of dt))) Q_fixed)"
proof -
  obtain p00 p01 p02 p03 p04 p10 p11 p12 p13 p14 p20 p21 p22 p23 p24
          p30 p31 p32 p33 p34 p40 p41 p42 p43 p44 :: real
    where P: "P = [[p00, p01, p02, p03, p04], [p10, p11, p12, p13, p14], [p20, p21, p22, p23, p24], [p30, p31, p32, p33, p34], [p40, p41, p42, p43, p44]]"
    using assms(1) by (rule is_mat_5_5_obtain)
  show ?thesis
    unfolding psd_def
  proof (intro allI impI)
    fix v :: "real list"
    assume "length v = rows (mat_add (mat_mul (mat_mul (F_of dt) P) (mat_transpose (F_of dt))) Q_fixed)"
    then have "length v = 5"
      unfolding P predict_cov_literal by simp
    then obtain v0 v1 v2 v3 v4 where v: "v = [v0, v1, v2, v3, v4]"
      by (rule length_5_obtain)
    have nonneg: "0 \<le> quad_form P [v0, v1, v2 + dt * v0, v3 + dt * v1, v4]"
      using assms(2) unfolding psd_def P by simp
    define noise where
      "noise = 0.001 * (v0 * v0) + 0.001 * (v1 * v1) + 0.05 * (v2 * v2) + 0.05 * (v3 * v3) + 0.01 * (v4 * v4)"
    have "quad_form (mat_add (mat_mul (mat_mul (F_of dt) P) (mat_transpose (F_of dt))) Q_fixed) v
        = quad_form P [v0, v1, v2 + dt * v0, v3 + dt * v1, v4] + noise"
      unfolding P predict_cov_literal v quad_form_5 noise_def by (simp add: algebra_simps)
    moreover have "0 \<le> noise"
      unfolding noise_def by simp
    ultimately show "0 \<le> quad_form (mat_add (mat_mul (mat_mul (F_of dt) P) (mat_transpose (F_of dt))) Q_fixed) v"
      using nonneg by linarith
  qed
qed

lemma inverse2_literal:
  "inverse2 [[a, b], [c, d]] = [[d / (a * d - b * c), - b / (a * d - b * c)],
                                [- c / (a * d - b * c), a / (a * d - b * c)]]"
  by (simp add: inverse2_def determinant2_def Let_def)

lemma update_cov_symmetric:
  assumes "is_mat 5 5 P" and "symmetric P"
  shows "symmetric (update_cov P)"
proof -
  obtain p00 p01 p02 p03 p04 p11 p12 p13 p14 p22 p23 p24 p33 p34 p44 :: real
    where P: "P = [[p00, p01, p02, p03, p04], [p01, p11, p12, p13, p14], [p02, p12, p22, p23, p24], [p03, p13, p23, p33, p34], [p04, p14, p24, p34, p44]]"
    using assms by (rule symmetric_5_obtain)
  show ?thesis
    unfolding update_cov_def P innovation_cov_literal inverse2_literal update_cov_literal
      symmetric_literal_5
    by (simp add: algebra_simps)
qed

lemma update_cov_psd:
  assumes "is_mat 5 5 P" and "symmetric P" and "psd P"
    and det: "determinant2 (mat_add (mat_mul (mat_mul H_fixed P) (mat_transpose H_fixed)) R_fixed) \<noteq> 0"
  shows "psd (update_cov P)"
proof -
  obtain p00 p01 p02 p03 p04 p11 p12 p13 p14 p22 p23 p24 p33 p34 p44 :: real
    where P: "P = [[p00, p01, p02, p03, p04], [p01, p11, p12, p13, p14], [p02, p12, p22, p23, p24], [p03, p13, p23, p33, p34], [p04, p14, p24, p34, p44]]"
    using assms(1,2) by (rule symmetric_5_obtain)
  define d where "d = (p00 + 3) * (p11 + 3) - p01 * p01"
  have d: "d \<noteq> 0"
    using det unfolding P innovation_cov_literal d_def by (simp add: determinant2_def)
  define s00 s01 s11 where "s00 = (p11 + 3) / d" and "s01 = - p01 / d" and "s11 = (p00 + 3) / d"
  have cov: "update_cov P =
      mat_mul (mat_sub (Identity 5 5)
       (mat_mul (mat_mul (mat_mul P (mat_transpose H_fixed)) [[s00, s01], [s01, s11]]) H_fixed)) P"
    unfolding update_cov_def P innovation_cov_literal inverse2_literal s00_def s01_def s11_def d_def
    by simp
  show ?thesis
    unfolding psd_def
  proof (intro allI impI)
    fix v :: "real list"
    assume "length v = rows (update_cov P)"
    then have "length v = 5"
      unfolding cov unfolding P update_cov_literal by simp
    then obtain v0 v1 v2 v3 v4 where v: "v = [v0, v1, v2, v3, v4]"
      by (rule length_5_obtain)
    define w0 where "w0 = p00 * v0 + p01 * v1 + p02 * v2 + p03 * v3 + p04 * v4"
    define w1 where "w1 = p01 * v0 + p11 * v1 + p12 * v2 + p13 * v3 + p14 * v4"
    define t0 where "t0 = s00 * w0 + s01 * w1"
    define t1 where "t1 = s01 * w0 + s11 * w1"
    have e1: "quad_form (update_cov P) v = quad_form P v - (w0 * t0 + w1 * t1)"
      unfolding cov unfolding P update_cov_literal v quad_form_5 t0_def t1_def w0_def w1_def
      by (simp add: algebra_simps)
    have e2: "quad_form P [v0 - t0, v1 - t1, v2, v3, v4]
        = quad_form P v - 2 * (w0 * t0 + w1 * t1) + (t0 * t0 * p00 + 2 * (t0 * t1 * p01) + t1 * t1 * p11)"
      unfolding P v quad_form_5 w0_def w1_def
      by (simp add: algebra_simps)
    have "(p00 + 3) * t0 + p01 * t1 = ((p00 + 3) * (p11 + 3) - p01 * p01) * w0 / d"
      unfolding t0_def t1_def s00_def s01_def s11_def using d
      by (simp add: field_simps)
    also have "\<dots> = w0"
      unfolding d_def [symmetric] using d by simp
    finally have e3a: "w0 = (p00 + 3) * t0 + p01 * t1" ..
    have "p01 * t0 + (p11 + 3) * t1 = ((p00 + 3) * (p11 + 3) - p01 * p01) * w1 / d"
      unfolding t0_def t1_def s00_def s01_def s11_def using d
      by (simp add: field_simps)
    also have "\<dots> = w1"
      unfolding d_def [symmetric] using d by simp
    finally have e3b: "w1 = p01 * t0 + (p11 + 3) * t1" ..
    have e4: "w0 * t0 + w1 * t1
        = (t0 * t0 * p00 + 2 * (t0 * t1 * p01) + t1 * t1 * p11) + 3 * (t0 * t0 + t1 * t1)"
    proof -
      have "w0 * t0 + w1 * t1 = ((p00 + 3) * t0 + p01 * t1) * t0 + (p01 * t0 + (p11 + 3) * t1) * t1"
        using e3a e3b by simp
      also have "\<dots> = (t0 * t0 * p00 + 2 * (t0 * t1 * p01) + t1 * t1 * p11) + 3 * (t0 * t0 + t1 * t1)"
        by (simp add: algebra_simps)
      finally show ?thesis .
    qed
    have nonneg: "0 \<le> quad_form P [v0 - t0, v1 - t1, v2, v3, v4]"
      using assms(3) unfolding psd_def P by simp
    have sq: "0 \<le> t0 * t0 + t1 * t1"
      by simp
    define A where "A = w0 * t0 + w1 * t1"
    define B where "B = t0 * t0 * p00 + 2 * (t0 * t1 * p01) + t1 * t1 * p11"
    define C where "C = t0 * t0 + t1 * t1"
    have "quad_form (update_cov P) v = quad_form P v - A"
      and "quad_form P [v0 - t0, v1 - t1, v2, v3, v4] = quad_form P v - 2 * A + B"
      and "A = B + 3 * C" and "0 \<le> C"
      unfolding A_def B_def C_def using e1 e2 e4 sq by simp_all
    with nonneg show "0 \<le> quad_form (update_cov P) v"
      by linarith
  qed
qed

lemma is_mat_literal_5_5:
  "is_mat 5 5 [[a00, a01, a02, a03, a04], [a10, a11, a12, a13, a14], [a20, a21, a22, a23, a24],
               [a30, a31, a32, a33, a34], [a40, a41, a42, a43, a44]]"
  by (simp add: is_mat_def)

lemma is_mat_predict_cov:
  assumes "is_mat 5 5 P"
  shows "is_mat 5 5 (mat_add (mat_mul (mat_mul (F_of dt) P) (mat_transpose (F_of dt))) Q_fixed)"
proof -
  obtain p00 p01 p02 p03 p04 p10 p11 p12 p13 p14 p20 p21 p22 p23 p24
          p30 p31 p32 p33 p34 p40 p41 p42 p43 p44 :: real
    where P: "P = [[p00, p01, p02, p03, p04], [p10, p11, p12, p13, p14], [p20, p21, p22, p23, p24],
              [p30, p31, p32, p33, p34], [p40, p41, p42, p43, p44]]"
    using assms by (rule is_mat_5_5_obtain)
  show ?thesis
    unfolding P predict_cov_literal by (rule is_mat_literal_5_5)
qed

lemma is_mat_update_cov:
  assumes "is_mat 5 5 P"
  shows "is_mat 5 5 (update_cov P)"
proof -
  obtain p00 p01 p02 p03 p04 p10 p11 p12 p13 p14 p20 p21 p22 p23 p24
          p30 p31 p32 p33 p34 p40 p41 p42 p43 p44 :: real
    where P: "P = [[p00, p01, p02, p03, p04], [p10, p11, p12, p13, p14], [p20, p21, p22, p23, p24],
              [p30, p31, p32, p33, p34], [p40, p41, p42, p43, p44]]"
    using assms by (rule is_mat_5_5_obtain)
  show ?thesis
    unfolding update_cov_def P innovation_cov_literal inverse2_literal update_cov_literal
    by (rule is_mat_literal_5_5)
qed

lemma EKF_update_ok:
  assumes "EKF_inv e" and "length z = 2"
  shows "fst (EKF_update e z) = None"
    and "P_e (snd (EKF_update e z)) = update_cov (P_e e)"
    and "length (x_e (snd (EKF_update e z))) = 5"
  using assms
  by (simp_all add: EKF_update_def EKF_inv_def Let_def update_cov_def vec_add_def)

lemma EKF_update_other:
  "dt_e (snd (EKF_update e z)) = dt_e e" "state_dim_e (snd (EKF_update e z)) = state_dim_e e"
  "meas_dim_e (snd (EKF_update e z)) = meas_dim_e e" "H_e (snd (EKF_update e z)) = H_e e"
  "Q_e (snd (EKF_update e z)) = Q_e e" "R_e (snd (EKF_update e z)) = R_e e"
  "F_e (snd (EKF_update e z)) = F_e e"
  by (simp_all add: EKF_update_def Let_def)

lemma EKF_inv_init:
  assumes "EKF_inv e"
  shows "EKF_inv (snd (EKF_init e s))"
proof (cases "length s = 5")
  case True
  show ?thesis
    unfolding EKF_init_ok [OF assms True]
    using assms True by (simp add: EKF_inv_def is_mat_literal_5_5)
next
  case False
  with assms show ?thesis
    by (simp add: EKF_init_def EKF_inv_def)
qed

lemma EKF_inv_setDeltaT:
  assumes "EKF_inv e"
  shows "EKF_inv (EKF_setDeltaT e dt)"
proof -
  from assms have F: "is_mat 5 5 (F_e e)"
    by (simp add: EKF_inv_def)
  have "EKF_setDeltaT e dt = e\<lparr> dt_e := dt, F_e := F_of dt \<rparr>"
    unfolding EKF_setDeltaT_def Let_def by (simp add: predict_F [OF F, unfolded One_nat_def])
  then show ?thesis
    using assms by (simp add: EKF_inv_def F_of_def is_mat_literal_5_5)
qed

lemma EKF_inv_predict:
  assumes "EKF_inv e"
  shows "EKF_inv (EKF_predict e a r)"
proof -
  from assms have F: "is_mat 5 5 (F_e e)" and P: "is_mat 5 5 (P_e e)" and x: "length (x_e e) = 5"
    and Q: "Q_e e = Q_fixed"
    by (simp_all add: EKF_inv_def)
  have "is_mat 5 5 (P_e (EKF_predict e a r))"
    unfolding EKF_predict_P [OF F] Q by (rule is_mat_predict_cov [OF P])
  moreover have "length (x_e (EKF_predict e a r)) = 5"
    unfolding EKF_predict_x [OF x] by simp
  moreover have "F_e (EKF_predict e a r) = F_of (dt_e e)"
    unfolding EKF_predict_def Let_def predict_F [OF F] by simp
  ultimately show ?thesis
    using assms by (simp add: EKF_inv_def EKF_predict_other F_of_def is_mat_literal_5_5)
qed

lemma EKF_inv_update:
  assumes "EKF_inv e"
  shows "EKF_inv (snd (EKF_update e z))"
proof (cases "length z = 2")
  case True
  from assms have P: "is_mat 5 5 (P_e e)"
    by (simp add: EKF_inv_def)
  show ?thesis
    using assms EKF_update_ok [OF assms True] is_mat_update_cov [OF P]
    by (simp add: EKF_inv_def EKF_update_other)
next
  case False
  with assms show ?thesis
    by (simp add: EKF_update_def EKF_inv_def)
qed

lemma innovation_cov_inv:
  "EKF_inv e \<Longrightarrow> innovation_cov e =
     mat_add (mat_mul (mat_mul H_fixed (P_e e)) (mat_transpose H_fixed)) R_fixed"
  by (simp add: innovation_cov_def EKF_inv_def)

theorem EKF_init_then_state_witness:
  "EKF_inv (EKF_predict (EKF_ctor 0.1) 1 0.2) \<and> length [3, 4, 1, 0, 0.5 :: real] = 5
   \<and> fst (EKF_init (EKF_predict (EKF_ctor 0.1) 1 0.2) [3, 4, 1, 0, 0.5]) = None
   \<and> EKF_state (snd (EKF_init (EKF_predict (EKF_ctor 0.1) 1 0.2) [3, 4, 1, 0, 0.5])) = [3, 4, 1, 0, 0.5]
   \<and> P_e (snd (EKF_init (EKF_predict (EKF_ctor 0.1) 1 0.2) [3, 4, 1, 0, 0.5])) =
        [[10, 0, 0, 0, 0], [0, 10, 0, 0, 0], [0, 0, 10, 0, 0], [0, 0, 0, 10, 0], [0, 0, 0, 0, 10]]"
proof -
  have h1: "EKF_inv (EKF_predict (EKF_ctor 0.1) 1 0.2)"
    by (rule EKF_inv_predict [OF EKF_inv_ctor])
  have h2: "length [3, 4, 1, 0, 0.5 :: real] = 5" by simp
  from EKF_init_then_state [OF h1 h2] h1 h2 show ?thesis by simp
qed

text \<open>
  Claim C5. \<^verbatim>\<open>update\<close> with a measurement whose size is not 2, and \<^verbatim>\<open>init\<close> with a state
  whose size is not 5, throw the runtime error of the method and leave the whole object,
  so its state and covariance, as it was.
\<close>

theorem EKF_dimension_error_leaves_state:
  assumes "EKF_inv e"
  shows "(length z \<noteq> 2 \<longrightarrow>
            EKF_update e z = (Some (RuntimeError ''EKF::update: wrong measurement size''), e))
       \<and> (length s \<noteq> 5 \<longrightarrow>
            EKF_init e s = (Some (RuntimeError ''EKF::init: wrong state size''), e))"
  using assms by (simp add: EKF_inv_def EKF_update_def EKF_init_def)

theorem EKF_dimension_error_leaves_state_witness:
  "EKF_inv (EKF_ctor 0.1)
   \<and> length [1, 2, 3 :: real] \<noteq> 2
   \<and> EKF_update (EKF_ctor 0.1) [1, 2, 3]
        = (Some (RuntimeError ''EKF::update: wrong measurement size''), EKF_ctor 0.1)
   \<and> length [1, 2, 3, 4 :: real] \<noteq> 5
   \<and> EKF_init (EKF_ctor 0.1) [1, 2, 3, 4]
        = (Some (RuntimeError ''EKF::init: wrong state size''), EKF_ctor 0.1)"
  using EKF_dimension_error_leaves_state [OF EKF_inv_ctor, of "[1, 2, 3]" "0.1" "[1, 2, 3, 4]"] EKF_inv_ctor [of "0.1"] by simp

subsection \<open>The covariance stays symmetric and positive semi-definite\<close>

text \<open>
  Claim C2. If the stored covariance is symmetric and positive semi-definite, it is so
  again after \<^verbatim>\<open>predict\<close>, and after \<^verbatim>\<open>update\<close> with a measurement of size 2 whenever the
  innovation covariance \<open>S\<close> has a non-zero determinant (exact arithmetic).
\<close>

theorem EKF_covariance_symmetric_psd:
  assumes "EKF_inv e" and "symmetric (P_e e)" and "psd (P_e e)"
  shows "symmetric (P_e (EKF_predict e forwardAccel yawRate))
       \<and> psd (P_e (EKF_predict e forwardAccel yawRate))
       \<and> (length z = 2 \<and> determinant2 (innovation_cov e) \<noteq> 0 \<longrightarrow>
            fst (EKF_update e z) = None
            \<and> symmetric (P_e (snd (EKF_update e z)))
            \<and> psd (P_e (snd (EKF_update e z))))"
proof -
  from assms(1) have F: "is_mat 5 5 (F_e e)" and P: "is_mat 5 5 (P_e e)" and Q: "Q_e e = Q_fixed"
    by (simp_all add: EKF_inv_def)
  have "symmetric (P_e (EKF_predict e forwardAccel yawRate))"
    unfolding EKF_predict_P [OF F] Q by (rule predict_cov_symmetric [OF P assms(2)])
  moreover have "psd (P_e (EKF_predict e forwardAccel yawRate))"
    unfolding EKF_predict_P [OF F] Q by (rule predict_cov_psd [OF P assms(3)])
  moreover have "fst (EKF_update e z) = None
            \<and> symmetric (P_e (snd (EKF_update e z)))
            \<and> psd (P_e (snd (EKF_update e z)))"
    if z: "length z = 2" and det: "determinant2 (innovation_cov e) \<noteq> 0"
  proof -
    have "determinant2 (mat_add (mat_mul (mat_mul H_fixed (P_e e)) (mat_transpose H_fixed)) R_fixed) \<noteq> 0"
      using det unfolding innovation_cov_inv [OF assms(1)] .
    note update_cov_psd [OF P assms(2,3) this]
    moreover have "symmetric (update_cov (P_e e))"
      by (rule update_cov_symmetric [OF P assms(2)])
    ultimately show ?thesis
      by (simp add: EKF_update_ok [OF assms(1) z])
  qed
  ultimately show ?thesis by blast
qed

lemma initial_cov_symmetric_psd:
  "symmetric [[10, 0, 0, 0, 0], [0, 10, 0, 0, 0], [0, 0, 10, 0, 0], [0, 0, 0, 10, 0], [0, 0, 0, 0, 10]]"
  "psd [[10, 0, 0, 0, 0], [0, 10, 0, 0, 0], [0, 0, 10, 0, 0], [0, 0, 0, 10, 0], [0, 0, 0, 0, 10]]"
proof -
  show "symmetric [[10, 0, 0, 0, 0], [0, 10, 0, 0, 0], [0, 0, 10, 0, 0], [0, 0, 0, 10, 0], [0, 0, 0, 0, 10]]"
    unfolding symmetric_literal_5 by simp
  show "psd [[10, 0, 0, 0, 0], [0, 10, 0, 0, 0], [0, 0, 10, 0, 0], [0, 0, 0, 10, 0], [0, 0, 0, 0, 10]]"
    unfolding psd_def
  proof (intro allI impI)
    fix v :: "real list"
    assume "length v = rows [[10, 0, 0, 0, 0], [0, 10, 0, 0, 0], [0, 0, 10, 0, 0], [0, 0, 0, 10, 0], [0, 0, 0, 0, 10]]"
    then have "length v = 5" by simp
    then obtain v0 v1 v2 v3 v4 where v: "v = [v0, v1, v2, v3, v4]"
      by (rule length_5_obtain)
    show "0 \<le> quad_form [[10, 0, 0, 0, 0], [0, 10, 0, 0, 0], [0, 0, 10, 0, 0], [0, 0, 0, 10, 0], [0, 0, 0, 0, 10]] v"
      unfolding v quad_form_5 by simp
  qed
qed

theorem EKF_covariance_symmetric_psd_witness:
  "EKF_inv (EKF_ctor 0.1) \<and> symmetric (P_e (EKF_ctor 0.1)) \<and> psd (P_e (EKF_ctor 0.1))
   \<and> length [1, 2 :: real] = 2 \<and> determinant2 (innovation_cov (EKF_ctor 0.1)) \<noteq> 0
   \<and> symmetric (P_e (EKF_predict (EKF_ctor 0.1) 1 0.2))
   \<and> psd (P_e (EKF_predict (EKF_ctor 0.1) 1 0.2))
   \<and> fst (EKF_update (EKF_ctor 0.1) [1, 2]) = None
   \<and> symmetric (P_e (snd (EKF_update (EKF_ctor 0.1) [1, 2])))
   \<and> psd (P_e (snd (EKF_update (EKF_ctor 0.1) [1, 2])))"
proof -
  have P0: "P_e (EKF_ctor 0.1) =
      [[10, 0, 0, 0, 0], [0, 10, 0, 0, 0], [0, 0, 10, 0, 0], [0, 0, 0, 10, 0], [0, 0, 0, 0, 10]]"
    by (simp add: EKF_ctor_fields)
  have h1: "EKF_inv (EKF_ctor 0.1)" by (rule EKF_inv_ctor)
  have h2: "symmetric (P_e (EKF_ctor 0.1))" and h3: "psd (P_e (EKF_ctor 0.1))"
    unfolding P0 by (rule initial_cov_symmetric_psd)+
  have h4: "determinant2 (innovation_cov (EKF_ctor 0.1)) \<noteq> 0"
    unfolding innovation_cov_inv [OF h1] P0 innovation_cov_literal
    by (simp add: determinant2_def)
  from EKF_covariance_symmetric_psd [OF h1 h2 h3, of 1 "0.2" "[1, 2]"] h1 h2 h3 h4
  show ?thesis by simp
qed

end
